theory Spec2Isabelle
  imports Complex_Main "HOL-Library.Word"
begin

section \<open>JavaScript values\<close>

text \<open>
  A JavaScript string is a sequence of 16-bit code units.  String literals of
  \<^verbatim>\<open>public/script.js\<close> are ASCII and are written with \<open>lit\<close>.
\<close>

type_synonym jschar = "16 word"

type_synonym jsstring = "jschar list"

definition lit :: "string \<Rightarrow> jsstring" where
  "lit cs = map of_char cs"

text \<open>
  The code units that \<^verbatim>\<open>String.prototype.trim\<close> strips and that the regular
  expression escape \<^verbatim>\<open>\s\<close> matches: ECMAScript WhiteSpace and LineTerminator.
\<close>

definition isWhiteSpace :: "jschar \<Rightarrow> bool" where
  "isWhiteSpace c \<longleftrightarrow>
     c = 0x0009 \<or> c = 0x000A \<or> c = 0x000B \<or> c = 0x000C \<or> c = 0x000D \<or>
     c = 0x0020 \<or> c = 0x00A0 \<or> c = 0x1680 \<or> (0x2000 \<le> c \<and> c \<le> 0x200A) \<or>
     c = 0x2028 \<or> c = 0x2029 \<or> c = 0x202F \<or> c = 0x205F \<or> c = 0x3000 \<or>
     c = 0xFEFF"

definition trim :: "jsstring \<Rightarrow> jsstring" where
  "trim s = rev (dropWhile isWhiteSpace (rev (dropWhile isWhiteSpace s)))"

definition startsWith :: "jsstring \<Rightarrow> jsstring \<Rightarrow> bool" where
  "startsWith s p \<longleftrightarrow> take (length p) s = p"

text \<open>
  Numbers are IEEE doubles; a finite double is kept as the real number it denotes.
  The one arithmetic operation modelled is \<^verbatim>\<open>window.innerHeight * 0.8\<close>.  The
  height is an integer (a \<^verbatim>\<open>long\<close>), the literal \<^verbatim>\<open>0.8\<close> denotes the double
  \<open>3602879701896397 / 2^52\<close>, and the product of two doubles is their exact product
  rounded to 53 significant bits, a tie going to the even neighbour.  The exact
  product is a multiple of \<open>2^-52\<close>, so rounding it is rounding its numerator.
\<close>

fun bitLength :: "nat \<Rightarrow> nat" where
  "bitLength n = (if n = 0 then 0 else Suc (bitLength (n div 2)))"

declare bitLength.simps [simp del]

definition round53 :: "nat \<Rightarrow> nat" where
  "round53 n =
     (let k = bitLength n
      in if k \<le> 53 then n
         else
           (let shift = k - 53;
                q = n div 2 ^ shift;
                r = n mod 2 ^ shift;
                half = 2 ^ (shift - 1)
            in (if half < r \<or> (r = half \<and> odd q) then q + 1 else q) * 2 ^ shift))"

definition js_times_0_8 :: "int \<Rightarrow> real" where
  "js_times_0_8 h =
     (if h < 0 then - 1 else 1) * real (round53 (nat \<bar>h\<bar> * 3602879701896397)) / 2 ^ 52"

section \<open>Regular expressions\<close>

text \<open>
  The fragment of regular-expression syntax that \<^verbatim>\<open>forms.isValidEmail\<close> uses:
  literal code units, negated character classes whose members are single code
  units or the escape \<^verbatim>\<open>\s\<close>, concatenation and repetition.  \<open>Zero\<close>, \<open>One\<close>
  and \<open>Alt\<close> only arise while matching.  The pattern is anchored with \<^verbatim>\<open>^\<close> and \<^verbatim>\<open>$\<close>
  and has no flags, so \<^verbatim>\<open>test\<close> succeeds exactly when the whole input matches.
\<close>

datatype classItem = Single jschar | SpaceEscape

datatype regex =
    Zero
  | One
  | Lit jschar
  | NotIn "classItem list"
  | Cat regex regex
  | Alt regex regex
  | Star regex

definition Plus :: "regex \<Rightarrow> regex" where
  "Plus r = Cat r (Star r)"

fun item_has :: "classItem \<Rightarrow> jschar \<Rightarrow> bool" where
  "item_has (Single d) c \<longleftrightarrow> c = d"
| "item_has SpaceEscape c \<longleftrightarrow> isWhiteSpace c"

fun nullable :: "regex \<Rightarrow> bool" where
  "nullable Zero \<longleftrightarrow> False"
| "nullable One \<longleftrightarrow> True"
| "nullable (Lit d) \<longleftrightarrow> False"
| "nullable (NotIn items) \<longleftrightarrow> False"
| "nullable (Cat r q) \<longleftrightarrow> nullable r \<and> nullable q"
| "nullable (Alt r q) \<longleftrightarrow> nullable r \<or> nullable q"
| "nullable (Star r) \<longleftrightarrow> True"

fun deriv :: "jschar \<Rightarrow> regex \<Rightarrow> regex" where
  "deriv c Zero = Zero"
| "deriv c One = Zero"
| "deriv c (Lit d) = (if c = d then One else Zero)"
| "deriv c (NotIn items) = (if list_ex (\<lambda>i. item_has i c) items then Zero else One)"
| "deriv c (Cat r q) =
     (if nullable r then Alt (Cat (deriv c r) q) (deriv c q)
      else Cat (deriv c r) q)"
| "deriv c (Alt r q) = Alt (deriv c r) (deriv c q)"
| "deriv c (Star r) = Cat (deriv c r) (Star r)"

definition regex_test :: "regex \<Rightarrow> jsstring \<Rightarrow> bool" where
  "regex_test r s \<longleftrightarrow> nullable (foldl (\<lambda>q c. deriv c q) r s)"

text \<open>
  The set of strings a pattern denotes, as the reference against which the
  matcher is checked.
\<close>

fun lang :: "regex \<Rightarrow> jsstring set" where
  "lang Zero = {}"
| "lang One = {[]}"
| "lang (Lit d) = {[d]}"
| "lang (NotIn items) = {[c] | c. \<not> list_ex (\<lambda>i. item_has i c) items}"
| "lang (Cat r q) = {u @ v | u v. u \<in> lang r \<and> v \<in> lang q}"
| "lang (Alt r q) = lang r \<union> lang q"
| "lang (Star r) = {concat ws | ws. set ws \<subseteq> lang r}"

section \<open>Page state\<close>

text \<open>
  Handles of styled elements (the elements with the fade-in marker class, the
  project cards, the skill icons, the loading spinner) are natural numbers.
  A \<open>viewport\<close> holds what the browser reports when a handler runs: the double
  \<^verbatim>\<open>window.scrollY\<close>, the integers \<^verbatim>\<open>window.innerHeight\<close> and
  \<^verbatim>\<open>window.innerWidth\<close>, the result of
  \<^verbatim>\<open>document.querySelectorAll('.animate-fade-in')\<close> and, for each element, the
  double \<^verbatim>\<open>getBoundingClientRect().top\<close>.
\<close>

type_synonym elem = nat

record viewport =
  scrollY :: real
  innerHeight :: int
  innerWidth :: int
  fadeInElements :: "elem list"
  rectTop :: "elem \<Rightarrow> real"

text \<open>One closure variable \<^verbatim>\<open>inThrottle\<close> exists per call of \<^verbatim>\<open>utils.throttle\<close>.\<close>

datatype throttled = NavbarCell | FadeInCell | ProgressCell

record formdata =
  name :: jsstring
  email :: jsstring
  subject :: jsstring
  message :: jsstring

text \<open>
  A node of the document: its identity, the tokens of its class attribute and its
  text content.
\<close>

record node =
  nodeId :: nat
  classList :: "jsstring list"
  textContent :: jsstring

text \<open>
  Callbacks handed to \<^verbatim>\<open>setTimeout\<close>: the reset of a throttle flag, the removal
  of a message node, the resolution of the simulated submission, which resumes
  \<^verbatim>\<open>forms.handleContactForm\<close> after its \<^verbatim>\<open>await\<close> with the captured form data
  and the captured \<^verbatim>\<open>originalText\<close>, and the removal of the loading spinner.
\<close>

datatype action =
    ClearThrottle throttled
  | RemoveNode nat
  | SubmitResolve formdata jsstring
  | RemoveLoader elem

text \<open>
  The page: the module-level \<^verbatim>\<open>state\<close> object, the throttle flags, the pending
  timers with their delay in milliseconds, and the parts of the document and of
  browser storage that the handlers read or write.  The document around the
  contact form is kept in document order as the nodes of the body before the form,
  the child nodes of the form, and the nodes after it; the styled elements are
  tracked apart from these by their handles.  The four elements looked up at the top
  of the script (\<^verbatim>\<open>mobileMenuButton\<close> with its icon, \<^verbatim>\<open>mobileMenu\<close>, the
  \<^verbatim>\<open>nav\<close> element, \<^verbatim>\<open>contactForm\<close> with its submit button) are taken to exist.
  The four form fields are taken to be present as strings.  \<open>opacityWrites\<close>
  records, in program order, every assignment to \<^verbatim>\<open>style.opacity\<close> of an element
  with the value assigned.  The inline style of the progress bar is not part of the
  page: what it holds after an assignment is decided by the browser's style parser.
\<close>

record page =
  isMenuOpen :: bool
  isScrolled :: bool
  animatedElements :: "elem set"
  inThrottle :: "throttled \<Rightarrow> bool"
  timers :: "(nat \<times> action) list"
  menuClasses :: "jsstring list"
  iconClasses :: "jsstring list"
  navbarClasses :: "jsstring list"
  bodyOverflow :: jsstring
  opacity :: "elem \<Rightarrow> jsstring"
  transform :: "elem \<Rightarrow> jsstring"
  boxShadow :: "elem \<Rightarrow> jsstring"
  opacityWrites :: "(elem \<times> jsstring) list"
  rootClass :: jsstring
  storage :: "jsstring \<rightharpoonup> jsstring"
  nodesBefore :: "node list"
  formKids :: "node list"
  nodesAfter :: "node list"
  nextNodeId :: nat
  formValues :: formdata
  formDefaults :: formdata
  submitLabel :: jsstring
  submitDisabled :: bool

text \<open>\<^verbatim>\<open>DOMTokenList\<close> operations on the ordered, duplicate-free token list.\<close>

definition classList_add :: "jsstring \<Rightarrow> jsstring list \<Rightarrow> jsstring list" where
  "classList_add tok cl = (if tok \<in> set cl then cl else cl @ [tok])"

definition classList_remove :: "jsstring \<Rightarrow> jsstring list \<Rightarrow> jsstring list" where
  "classList_remove tok cl = removeAll tok cl"

definition classList_toggle :: "jsstring \<Rightarrow> jsstring list \<Rightarrow> jsstring list" where
  "classList_toggle tok cl = (if tok \<in> set cl then removeAll tok cl else cl @ [tok])"

definition classList_toggle_force :: "jsstring \<Rightarrow> bool \<Rightarrow> jsstring list \<Rightarrow> jsstring list" where
  "classList_toggle_force tok force cl =
     (if force then classList_add tok cl else classList_remove tok cl)"

section \<open>Utility functions\<close>

text \<open>
  \<^verbatim>\<open>utils.throttle(func, limit)\<close>: a call while the flag is clear runs \<open>func\<close>,
  sets the flag and schedules its reset after \<open>limit\<close> milliseconds; a call
  while the flag is set does nothing.
\<close>

definition throttle :: "throttled \<Rightarrow> (page \<Rightarrow> page) \<Rightarrow> nat \<Rightarrow> page \<Rightarrow> page" where
  "throttle cell func limit s =
     (if \<not> inThrottle s cell then
        (let s' = func s
         in s'\<lparr>inThrottle := (inThrottle s')(cell := True),
               timers := timers s' @ [(limit, ClearThrottle cell)]\<rparr>)
      else s)"

section \<open>Navigation\<close>

definition toggleMobileMenu :: "page \<Rightarrow> page" where
  "toggleMobileMenu s =
     (let s1 = s\<lparr>isMenuOpen := \<not> isMenuOpen s\<rparr>;
          s2 = s1\<lparr>menuClasses := classList_toggle (lit ''hidden'') (menuClasses s1)\<rparr>;
          s3 = s2\<lparr>iconClasses := classList_toggle (lit ''fa-bars'') (iconClasses s2)\<rparr>;
          s4 = s3\<lparr>iconClasses := classList_toggle (lit ''fa-times'') (iconClasses s3)\<rparr>
      in s4\<lparr>bodyOverflow := (if isMenuOpen s4 then lit ''hidden'' else lit '''')\<rparr>)"

definition closeMobileMenu :: "page \<Rightarrow> page" where
  "closeMobileMenu s =
     (if isMenuOpen s then
        (let s1 = s\<lparr>isMenuOpen := False\<rparr>;
             s2 = s1\<lparr>menuClasses := classList_add (lit ''hidden'') (menuClasses s1)\<rparr>;
             s3 = s2\<lparr>iconClasses := classList_add (lit ''fa-bars'') (iconClasses s2)\<rparr>;
             s4 = s3\<lparr>iconClasses := classList_remove (lit ''fa-times'') (iconClasses s3)\<rparr>
         in s4\<lparr>bodyOverflow := lit ''''\<rparr>)
      else s)"

definition handleNavbarScroll_body :: "viewport \<Rightarrow> page \<Rightarrow> page" where
  "handleNavbarScroll_body v s =
     (let scrolled = (scrollY v > 50)
      in if scrolled \<noteq> isScrolled s then
           s\<lparr>isScrolled := scrolled,
             navbarClasses :=
               classList_toggle_force (lit ''navbar-scrolled'') scrolled (navbarClasses s)\<rparr>
         else s)"

definition handleNavbarScroll :: "viewport \<Rightarrow> page \<Rightarrow> page" where
  "handleNavbarScroll v = throttle NavbarCell (handleNavbarScroll_body v) 10"

text \<open>
  \<^verbatim>\<open>navigation.handleSmoothScroll\<close>: \<open>href\<close> is the link's attribute and
  \<open>targetElement\<close> tells whether \<^verbatim>\<open>document.querySelector(href)\<close> found an
  element.  The scroll position itself belongs to the browser.
\<close>

definition handleSmoothScroll :: "jsstring \<Rightarrow> bool \<Rightarrow> page \<Rightarrow> page" where
  "handleSmoothScroll href targetElement s =
     (if startsWith href (lit ''#'') then
        (if targetElement then closeMobileMenu s else s)
      else s)"

text \<open>The key-down listener of \<^verbatim>\<open>accessibility.handleKeyboardNavigation\<close>.\<close>

definition handleKeyDown :: "jsstring \<Rightarrow> page \<Rightarrow> page" where
  "handleKeyDown key s =
     (if key = lit ''Escape'' \<and> isMenuOpen s then closeMobileMenu s else s)"

text \<open>The body of the resize listener registered in \<^verbatim>\<open>init.eventListeners\<close>.\<close>

definition handleResize :: "viewport \<Rightarrow> page \<Rightarrow> page" where
  "handleResize v s =
     (if innerWidth v > 768 \<and> isMenuOpen s then closeMobileMenu s else s)"

section \<open>Animations\<close>

text \<open>The callback of \<^verbatim>\<open>elements.forEach\<close> in \<^verbatim>\<open>animations.animateOnScroll\<close>.\<close>

definition revealElement :: "viewport \<Rightarrow> page \<Rightarrow> elem \<Rightarrow> page" where
  "revealElement v s element =
     (if element \<notin> animatedElements s then
        (let elementPosition = rectTop v element;
             screenPosition = js_times_0_8 (innerHeight v)
         in if elementPosition < screenPosition then
              s\<lparr>opacity := (opacity s)(element := lit ''1''),
                opacityWrites := opacityWrites s @ [(element, lit ''1'')],
                transform := (transform s)(element := lit ''translateY(0)''),
                animatedElements := insert element (animatedElements s)\<rparr>
            else s)
      else s)"

definition animateOnScroll_body :: "viewport \<Rightarrow> page \<Rightarrow> page" where
  "animateOnScroll_body v s = foldl (revealElement v) s (fadeInElements v)"

definition animateOnScroll :: "viewport \<Rightarrow> page \<Rightarrow> page" where
  "animateOnScroll v = throttle FadeInCell (animateOnScroll_body v) 50"

text \<open>
  \<^verbatim>\<open>animations.initScrollProgress\<close> creates the progress bar and appends it to the
  body, behind every other node.
\<close>

definition initScrollProgress :: "page \<Rightarrow> page" where
  "initScrollProgress s =
     (let progressBar = \<lparr>nodeId = nextNodeId s, classList = [lit ''scroll-progress''],
                          textContent = lit ''''\<rparr>;
          s1 = s\<lparr>nextNodeId := Suc (nextNodeId s)\<rparr>
      in s1\<lparr>nodesAfter := nodesAfter s1 @ [progressBar]\<rparr>)"

text \<open>
  \<^verbatim>\<open>animations.updateScrollProgress\<close>: the callback divides and multiplies doubles
  and assigns the result, as a string, to the width of the progress bar's inline
  style.  That style is not part of the page, so of a call only the throttle shows.
\<close>

definition updateScrollProgress :: "page \<Rightarrow> page" where
  "updateScrollProgress = throttle ProgressCell (\<lambda>s. s) 10"

section \<open>Contact form\<close>

definition emailRegex :: regex where
  "emailRegex =
     Cat (Plus (NotIn [SpaceEscape, Single 0x40]))
       (Cat (Lit 0x40)
         (Cat (Plus (NotIn [SpaceEscape, Single 0x40]))
           (Cat (Lit 0x2E) (Plus (NotIn [SpaceEscape, Single 0x40])))))"

definition isValidEmail :: "jsstring \<Rightarrow> bool" where
  "isValidEmail email' \<longleftrightarrow> regex_test emailRegex email'"

definition documentNodes :: "page \<Rightarrow> node list" where
  "documentNodes s = nodesBefore s @ formKids s @ nodesAfter s"

definition isFormMessage :: "node \<Rightarrow> bool" where
  "isFormMessage n \<longleftrightarrow> lit ''form-message'' \<in> set (classList n)"

text \<open>\<^verbatim>\<open>document.querySelector('.form-message')\<close>: the first such node in document order.\<close>

definition querySelector_formMessage :: "page \<Rightarrow> node option" where
  "querySelector_formMessage s = find isFormMessage (documentNodes s)"

text \<open>\<^verbatim>\<open>remove()\<close> on the node with the given identity.\<close>

definition removeNode :: "nat \<Rightarrow> page \<Rightarrow> page" where
  "removeNode i s =
     s\<lparr>nodesBefore := filter (\<lambda>n. nodeId n \<noteq> i) (nodesBefore s),
       formKids := filter (\<lambda>n. nodeId n \<noteq> i) (formKids s),
       nodesAfter := filter (\<lambda>n. nodeId n \<noteq> i) (nodesAfter s)\<rparr>"

definition messageClasses :: "jsstring \<Rightarrow> jsstring list" where
  "messageClasses type =
     [lit ''form-message'', lit ''p-4'', lit ''rounded-lg'', lit ''mb-4''] @
     (if type = lit ''success'' then
        [lit ''bg-green-100'', lit ''text-green-800'', lit ''border'', lit ''border-green-200'']
      else if type = lit ''error'' then
        [lit ''bg-red-100'', lit ''text-red-800'', lit ''border'', lit ''border-red-200'']
      else
        [lit ''bg-blue-100'', lit ''text-blue-800'', lit ''border'', lit ''border-blue-200''])"

definition showMessage :: "jsstring \<Rightarrow> jsstring \<Rightarrow> page \<Rightarrow> page" where
  "showMessage msg type s =
     (let s1 = (case querySelector_formMessage s of
                  None \<Rightarrow> s
                | Some existingMessage \<Rightarrow> removeNode (nodeId existingMessage) s);
          messageDiv = \<lparr>nodeId = nextNodeId s1, classList = messageClasses type,
                         textContent = msg\<rparr>;
          s2 = s1\<lparr>nextNodeId := Suc (nextNodeId s1)\<rparr>;
          s3 = s2\<lparr>formKids := messageDiv # formKids s2\<rparr>
      in s3\<lparr>timers := timers s3 @ [(5000, RemoveNode (nodeId messageDiv))]\<rparr>)"

definition validateContactForm :: "formdata \<Rightarrow> page \<Rightarrow> bool \<times> page" where
  "validateContactForm data s =
     (if trim (name data) = [] then
        (False, showMessage (lit ''Please enter your name.'') (lit ''error'') s)
      else if trim (email data) = [] \<or> \<not> isValidEmail (email data) then
        (False, showMessage (lit ''Please enter a valid email address.'') (lit ''error'') s)
      else if trim (subject data) = [] then
        (False, showMessage (lit ''Please enter a subject.'') (lit ''error'') s)
      else if trim (message data) = [] then
        (False, showMessage (lit ''Please enter a message.'') (lit ''error'') s)
      else (True, s))"

text \<open>
  \<^verbatim>\<open>forms.submitContactForm\<close> creates a promise that a timer resolves after two
  seconds; the caller's continuation travels with the timer.
\<close>

definition submitContactForm :: "formdata \<Rightarrow> jsstring \<Rightarrow> page \<Rightarrow> page" where
  "submitContactForm data originalText s =
     s\<lparr>timers := timers s @ [(2000, SubmitResolve data originalText)]\<rparr>"

text \<open>\<^verbatim>\<open>forms.handleContactForm\<close> up to its \<^verbatim>\<open>await\<close>.\<close>

definition handleContactForm :: "page \<Rightarrow> page" where
  \<open>handleContactForm s =
     (let data = formValues s;
          (valid, s1) = validateContactForm data s
      in if \<not> valid then s1
         else
           (let originalText = submitLabel s1;
                s2 = s1\<lparr>submitLabel :=
                          lit ''Sending... <i class="fas fa-spinner fa-spin ml-2"></i>''\<rparr>;
                s3 = s2\<lparr>submitDisabled := True\<rparr>
            in submitContactForm data originalText s3))\<close>

text \<open>
  \<^verbatim>\<open>forms.handleContactForm\<close> after the promise has resolved: the success
  message, the form reset, and the \<^verbatim>\<open>finally\<close> block.
\<close>

definition handleContactForm_resume :: "formdata \<Rightarrow> jsstring \<Rightarrow> page \<Rightarrow> page" where
  "handleContactForm_resume data originalText s =
     (let s1 = showMessage
                 (lit ''Thank you for your message! I'll get back to you soon.'')
                 (lit ''success'') s;
          s2 = s1\<lparr>formValues := formDefaults s1\<rparr>;
          s3 = s2\<lparr>submitLabel := originalText\<rparr>
      in s3\<lparr>submitDisabled := False\<rparr>)"

section \<open>Hover effects\<close>

text \<open>
  The handlers of \<^verbatim>\<open>projects\<close> and \<^verbatim>\<open>skills\<close>; \<open>this\<close> is the element the
  pointer entered or left.
\<close>

definition handleCardHover :: "elem \<Rightarrow> page \<Rightarrow> page" where
  "handleCardHover this s =
     (let s1 = s\<lparr>transform := (transform s)(this := lit ''translateY(-10px) scale(1.02)'')\<rparr>
      in s1\<lparr>boxShadow := (boxShadow s1)(this := lit ''0 20px 40px rgba(0, 0, 0, 0.15)'')\<rparr>)"

definition handleCardLeave :: "elem \<Rightarrow> page \<Rightarrow> page" where
  "handleCardLeave this s =
     (let s1 = s\<lparr>transform := (transform s)(this := lit ''translateY(0) scale(1)'')\<rparr>
      in s1\<lparr>boxShadow := (boxShadow s1)(this := lit '''')\<rparr>)"

definition handleIconHover :: "elem \<Rightarrow> page \<Rightarrow> page" where
  "handleIconHover this s =
     s\<lparr>transform := (transform s)(this := lit ''translateY(-5px) scale(1.1)'')\<rparr>"

definition handleIconLeave :: "elem \<Rightarrow> page \<Rightarrow> page" where
  "handleIconLeave this s =
     s\<lparr>transform := (transform s)(this := lit ''translateY(0) scale(1)'')\<rparr>"

section \<open>Window load\<close>

text \<open>
  The listener for the window's \<^verbatim>\<open>load\<close> event; \<open>loader\<close> is the result of
  \<^verbatim>\<open>document.querySelector('.loader')\<close>.  What the listener does afterwards,
  logging the load time, does not touch the page.
\<close>

definition handleLoad :: "elem option \<Rightarrow> page \<Rightarrow> page" where
  "handleLoad loader s =
     (case loader of
        None \<Rightarrow> s
      | Some l \<Rightarrow>
          s\<lparr>opacity := (opacity s)(l := lit ''0''),
            opacityWrites := opacityWrites s @ [(l, lit ''0'')],
            timers := timers s @ [(500, RemoveLoader l)]\<rparr>)"

section \<open>Theme\<close>

text \<open>
  Browser storage as a call finds it: available; full, so that
  \<^verbatim>\<open>localStorage.setItem\<close> throws while reading works; or disabled, so that every
  access to \<^verbatim>\<open>localStorage\<close> throws.  The script catches nothing, so a call ends
  normally or with the exception, and what it wrote before the exception stays.
\<close>

datatype storage_mode = Available | QuotaExceeded | Disabled

datatype completion = Normal | Thrown

definition setTheme :: "storage_mode \<Rightarrow> jsstring \<Rightarrow> page \<Rightarrow> completion \<times> page" where
  "setTheme mode themeName s =
     (let s1 = s\<lparr>rootClass := themeName\<rparr>
      in if mode = Available then
           (Normal, s1\<lparr>storage := (storage s1)(lit ''theme'' \<mapsto> themeName)\<rparr>)
         else (Thrown, s1))"

text \<open>
  \<^verbatim>\<open>theme.init\<close>: \<^verbatim>\<open>getItem\<close> yields \<^verbatim>\<open>null\<close> for a missing key, and both
  \<^verbatim>\<open>null\<close> and the empty string are falsy.
\<close>

definition theme_init :: "storage_mode \<Rightarrow> page \<Rightarrow> completion \<times> page" where
  "theme_init mode s =
     (if mode = Disabled then (Thrown, s)
      else
        (let savedTheme = (case storage s (lit ''theme'') of
                             None \<Rightarrow> lit ''light''
                           | Some t \<Rightarrow> if t = [] then lit ''light'' else t)
         in setTheme mode savedTheme s))"

definition theme_toggle :: "storage_mode \<Rightarrow> page \<Rightarrow> completion \<times> page" where
  "theme_toggle mode s =
     (let currentTheme = rootClass s;
          newTheme = (if currentTheme = lit ''dark'' then lit ''light'' else lit ''dark'')
      in setTheme mode newTheme s)"

section \<open>Timers and operations\<close>

text \<open>
  Running a callback.  Removing the loading spinner takes it out of the document,
  so that later viewports no longer list it; the page state keeps no trace of it.
\<close>

fun fire :: "action \<Rightarrow> page \<Rightarrow> page" where
  "fire (ClearThrottle cell) s = s\<lparr>inThrottle := (inThrottle s)(cell := False)\<rparr>"
| "fire (RemoveNode i) s = removeNode i s"
| "fire (SubmitResolve data originalText) s = handleContactForm_resume data originalText s"
| "fire (RemoveLoader l) s = s"

text \<open>The browser runs the \<open>i\<close>-th pending timer and forgets it.\<close>

definition fireTimer :: "nat \<Rightarrow> page \<Rightarrow> page" where
  "fireTimer i s =
     (if i < length (timers s) then
        fire (snd (timers s ! i)) (s\<lparr>timers := take i (timers s) @ drop (Suc i) (timers s)\<rparr>)
      else s)"

text \<open>
  What can run on the page: the handlers that the script registers, the pending
  timers, and the operations of the navigation, animation, form and theme objects
  that act on the page directly.  An exception ends the operation that raised it and
  leaves the page as it then is.
\<close>

datatype operation =
    ToggleMobileMenu
  | CloseMobileMenu
  | HandleNavbarScroll viewport
  | HandleSmoothScroll jsstring bool
  | HandleKeyDown jsstring
  | HandleResize viewport
  | AnimateOnScroll viewport
  | InitScrollProgress
  | UpdateScrollProgress
  | HandleContactForm
  | ShowMessage jsstring jsstring
  | HandleCardHover elem
  | HandleCardLeave elem
  | HandleIconHover elem
  | HandleIconLeave elem
  | HandleLoad "elem option"
  | ThemeInit storage_mode
  | SetTheme storage_mode jsstring
  | ThemeToggle storage_mode
  | FireTimer nat

fun exec :: "page \<Rightarrow> operation \<Rightarrow> page" where
  "exec s ToggleMobileMenu = toggleMobileMenu s"
| "exec s CloseMobileMenu = closeMobileMenu s"
| "exec s (HandleNavbarScroll v) = handleNavbarScroll v s"
| "exec s (HandleSmoothScroll href targetElement) = handleSmoothScroll href targetElement s"
| "exec s (HandleKeyDown key) = handleKeyDown key s"
| "exec s (HandleResize v) = handleResize v s"
| "exec s (AnimateOnScroll v) = animateOnScroll v s"
| "exec s InitScrollProgress = initScrollProgress s"
| "exec s UpdateScrollProgress = updateScrollProgress s"
| "exec s HandleContactForm = handleContactForm s"
| "exec s (ShowMessage msg type) = showMessage msg type s"
| "exec s (HandleCardHover this) = handleCardHover this s"
| "exec s (HandleCardLeave this) = handleCardLeave this s"
| "exec s (HandleIconHover this) = handleIconHover this s"
| "exec s (HandleIconLeave this) = handleIconLeave this s"
| "exec s (HandleLoad loader) = handleLoad loader s"
| "exec s (ThemeInit mode) = snd (theme_init mode s)"
| "exec s (SetTheme mode themeName) = snd (setTheme mode themeName s)"
| "exec s (ThemeToggle mode) = snd (theme_toggle mode s)"
| "exec s (FireTimer i) = fireTimer i s"

definition run :: "page \<Rightarrow> operation list \<Rightarrow> page" where
  "run s ops = foldl exec s ops"

section \<open>Derived notions\<close>

text \<open>
  The state of the fade-in bookkeeping when the script has just been loaded:
  \<^verbatim>\<open>animatedElements: new Set()\<close> and no opacity assigned yet.
\<close>

definition freshly_loaded :: "page \<Rightarrow> bool" where
  "freshly_loaded s \<longleftrightarrow> animatedElements s = {} \<and> opacityWrites s = []"

text \<open>
  What the handlers maintain: the opacity of an element has been set to
  \<^verbatim>\<open>'1'\<close> once if the element is in the animated set, and never otherwise.
\<close>

definition reveal_inv :: "page \<Rightarrow> bool" where
  "reveal_inv s \<longleftrightarrow>
     (\<forall>e. count_list (opacityWrites s) (e, lit ''1'') =
          (if e \<in> animatedElements s then 1 else 0))"

text \<open>An operation during which a write to browser storage, if any, succeeds.\<close>

fun storage_writable :: "operation \<Rightarrow> bool" where
  "storage_writable (ThemeInit mode) \<longleftrightarrow> mode = Available"
| "storage_writable (SetTheme mode themeName) \<longleftrightarrow> mode = Available"
| "storage_writable (ThemeToggle mode) \<longleftrightarrow> mode = Available"
| "storage_writable op \<longleftrightarrow> True"

text \<open>
  The pattern \<^verbatim>\<open>^[^\s@]+@[^\s@]+\.[^\s@]+$\<close> read as a decomposition of the
  whole string: three non-empty runs of code units that are neither white space nor
  \<^verbatim>\<open>@\<close>, separated by one \<^verbatim>\<open>@\<close> and one dot.
\<close>

definition matches_email_pattern :: "jsstring \<Rightarrow> bool" where
  "matches_email_pattern s \<longleftrightarrow>
     (\<exists>a b c. s = a @ [0x40] @ b @ [0x2E] @ c \<and> a \<noteq> [] \<and> b \<noteq> [] \<and> c \<noteq> [] \<and>
        (\<forall>x \<in> set (a @ b @ c). \<not> isWhiteSpace x \<and> x \<noteq> 0x40))"

text \<open>
  The checks of the contact form in the order in which the specification lists
  them, each with the message for its field; a field counts as empty when nothing
  is left of it after trimming.  \<open>first_failure\<close> is the message of the first
  check that does not pass.
\<close>

definition validation_checks :: "formdata \<Rightarrow> (bool \<times> jsstring) list" where
  "validation_checks d =
     [(trim (name d) \<noteq> [], lit ''Please enter your name.''),
      (trim (email d) \<noteq> [] \<and> isValidEmail (email d),
         lit ''Please enter a valid email address.''),
      (trim (subject d) \<noteq> [], lit ''Please enter a subject.''),
      (trim (message d) \<noteq> [], lit ''Please enter a message.'')]"

definition first_failure :: "formdata \<Rightarrow> jsstring option" where
  "first_failure d = map_option snd (find (\<lambda>(passed, msg). \<not> passed) (validation_checks d))"

section \<open>Sample inputs\<close>

text \<open>
  A page as it is right after load for a typical markup: the menu closed, nothing
  animated, no timer pending, nothing stored, an empty contact form with one child.
\<close>

definition sample_page :: page where
  "sample_page =
     \<lparr>isMenuOpen = False, isScrolled = False, animatedElements = {},
      inThrottle = (\<lambda>_. False), timers = [],
      menuClasses = [lit ''md:hidden'', lit ''hidden''],
      iconClasses = [lit ''fas'', lit ''fa-bars'', lit ''text-xl''],
      navbarClasses = [lit ''fixed''],
      bodyOverflow = lit '''',
      opacity = (\<lambda>_. lit ''0''), transform = (\<lambda>_. lit ''translateY(20px)''),
      boxShadow = (\<lambda>_. lit ''''),
      opacityWrites = [],
      rootClass = lit '''', storage = Map.empty,
      nodesBefore = [\<lparr>nodeId = 0, classList = [lit ''section-title''], textContent = lit ''Contact''\<rparr>],
      formKids = [\<lparr>nodeId = 1, classList = [lit ''grid''], textContent = lit ''''\<rparr>],
      nodesAfter = [],
      nextNodeId = 2,
      formValues = \<lparr>name = lit '''', email = lit '''', subject = lit '''', message = lit ''''\<rparr>,
      formDefaults = \<lparr>name = lit '''', email = lit '''', subject = lit '''', message = lit ''''\<rparr>,
      submitLabel = lit ''Send Message'', submitDisabled = False\<rparr>"

text \<open>Form data that pass every check.\<close>

definition sample_formdata :: formdata where
  "sample_formdata =
     \<lparr>name = lit ''Ada'', email = lit ''a@b.co'', subject = lit ''Hello'',
      message = lit ''Nice site''\<rparr>"

text \<open>
  A viewport 600 pixels high, scrolled to the top, with two fade-in elements:
  element 1 at 100 pixels, element 2 at 900 pixels.
\<close>

definition sample_viewport :: viewport where
  "sample_viewport =
     \<lparr>scrollY = 0, innerHeight = 600, innerWidth = 1024,
      fadeInElements = [1, 2],
      rectTop = (\<lambda>e. if e = 1 then 100 else 900)\<rparr>"

text \<open>
  A viewport 344 pixels high with one fade-in element whose top is the double
  written \<^verbatim>\<open>275.2\<close>, that is \<open>4841369599423283 / 2^44\<close>, a little less than
  80% of 344.
\<close>

definition boundary_viewport :: viewport where
  "boundary_viewport =
     \<lparr>scrollY = 0, innerHeight = 344, innerWidth = 1024,
      fadeInElements = [1],
      rectTop = (\<lambda>e. 4841369599423283 / 2 ^ 44)\<rparr>"

text \<open>The sample page with two message nodes in its markup, behind the form.\<close>

definition two_message_page :: page where
  "two_message_page =
     sample_page
       \<lparr>nodesAfter :=
          [\<lparr>nodeId = 2, classList = [lit ''form-message''], textContent = lit ''one''\<rparr>,
           \<lparr>nodeId = 3, classList = [lit ''form-message''], textContent = lit ''two''\<rparr>],
        nextNodeId := 4\<rparr>"

section \<open>Frame properties\<close>

subsection \<open>What each operation leaves alone\<close>

lemma throttle_frame:
  "animatedElements (throttle c f l s) = (if inThrottle s c then animatedElements s else animatedElements (f s))"
  "opacity (throttle c f l s) = (if inThrottle s c then opacity s else opacity (f s))"
  "opacityWrites (throttle c f l s) = (if inThrottle s c then opacityWrites s else opacityWrites (f s))"
  "rootClass (throttle c f l s) = (if inThrottle s c then rootClass s else rootClass (f s))"
  "storage (throttle c f l s) = (if inThrottle s c then storage s else storage (f s))"
  by (simp_all add: throttle_def Let_def)

lemma toggleMobileMenu_frame:
  "animatedElements (toggleMobileMenu s) = animatedElements s"
  "opacity (toggleMobileMenu s) = opacity s"
  "opacityWrites (toggleMobileMenu s) = opacityWrites s"
  "rootClass (toggleMobileMenu s) = rootClass s"
  "storage (toggleMobileMenu s) = storage s"
  by (simp_all add: toggleMobileMenu_def Let_def)

lemma closeMobileMenu_frame:
  "animatedElements (closeMobileMenu s) = animatedElements s"
  "opacity (closeMobileMenu s) = opacity s"
  "opacityWrites (closeMobileMenu s) = opacityWrites s"
  "rootClass (closeMobileMenu s) = rootClass s"
  "storage (closeMobileMenu s) = storage s"
  by (simp_all add: closeMobileMenu_def Let_def)

lemma handleNavbarScroll_frame:
  "animatedElements (handleNavbarScroll v s) = animatedElements s"
  "opacity (handleNavbarScroll v s) = opacity s"
  "opacityWrites (handleNavbarScroll v s) = opacityWrites s"
  "rootClass (handleNavbarScroll v s) = rootClass s"
  "storage (handleNavbarScroll v s) = storage s"
  by (simp_all add: handleNavbarScroll_def throttle_frame handleNavbarScroll_body_def Let_def)

lemma handleSmoothScroll_frame:
  "animatedElements (handleSmoothScroll h t s) = animatedElements s"
  "opacity (handleSmoothScroll h t s) = opacity s"
  "opacityWrites (handleSmoothScroll h t s) = opacityWrites s"
  "rootClass (handleSmoothScroll h t s) = rootClass s"
  "storage (handleSmoothScroll h t s) = storage s"
  by (simp_all add: handleSmoothScroll_def closeMobileMenu_frame)

lemma handleKeyDown_frame:
  "animatedElements (handleKeyDown k s) = animatedElements s"
  "opacity (handleKeyDown k s) = opacity s"
  "opacityWrites (handleKeyDown k s) = opacityWrites s"
  "rootClass (handleKeyDown k s) = rootClass s"
  "storage (handleKeyDown k s) = storage s"
  by (simp_all add: handleKeyDown_def closeMobileMenu_frame)

lemma handleResize_frame:
  "animatedElements (handleResize v s) = animatedElements s"
  "opacity (handleResize v s) = opacity s"
  "opacityWrites (handleResize v s) = opacityWrites s"
  "rootClass (handleResize v s) = rootClass s"
  "storage (handleResize v s) = storage s"
  by (simp_all add: handleResize_def closeMobileMenu_frame)

lemma updateScrollProgress_frame:
  "animatedElements (updateScrollProgress s) = animatedElements s"
  "opacity (updateScrollProgress s) = opacity s"
  "opacityWrites (updateScrollProgress s) = opacityWrites s"
  "rootClass (updateScrollProgress s) = rootClass s"
  "storage (updateScrollProgress s) = storage s"
  by (simp_all add: updateScrollProgress_def throttle_frame)

lemma removeNode_frame:
  "animatedElements (removeNode i s) = animatedElements s"
  "opacity (removeNode i s) = opacity s"
  "opacityWrites (removeNode i s) = opacityWrites s"
  "rootClass (removeNode i s) = rootClass s"
  "storage (removeNode i s) = storage s"
  by (simp_all add: removeNode_def)

lemma showMessage_frame:
  "animatedElements (showMessage m t s) = animatedElements s"
  "opacity (showMessage m t s) = opacity s"
  "opacityWrites (showMessage m t s) = opacityWrites s"
  "rootClass (showMessage m t s) = rootClass s"
  "storage (showMessage m t s) = storage s"
  by (simp_all add: showMessage_def Let_def removeNode_frame split: option.split)

lemma handleContactForm_frame:
  "animatedElements (handleContactForm s) = animatedElements s"
  "opacity (handleContactForm s) = opacity s"
  "opacityWrites (handleContactForm s) = opacityWrites s"
  "rootClass (handleContactForm s) = rootClass s"
  "storage (handleContactForm s) = storage s"
  by (simp_all add: handleContactForm_def validateContactForm_def submitContactForm_def
        Let_def showMessage_frame)

lemma handleContactForm_resume_frame:
  "animatedElements (handleContactForm_resume d t s) = animatedElements s"
  "opacity (handleContactForm_resume d t s) = opacity s"
  "opacityWrites (handleContactForm_resume d t s) = opacityWrites s"
  "rootClass (handleContactForm_resume d t s) = rootClass s"
  "storage (handleContactForm_resume d t s) = storage s"
  by (simp_all add: handleContactForm_resume_def Let_def showMessage_frame)

lemma fire_frame:
  "animatedElements (fire a s) = animatedElements s"
  "opacity (fire a s) = opacity s"
  "opacityWrites (fire a s) = opacityWrites s"
  "rootClass (fire a s) = rootClass s"
  "storage (fire a s) = storage s"
  by (cases a; simp add: removeNode_frame handleContactForm_resume_frame)+

lemma fireTimer_frame:
  "animatedElements (fireTimer i s) = animatedElements s"
  "opacity (fireTimer i s) = opacity s"
  "opacityWrites (fireTimer i s) = opacityWrites s"
  "rootClass (fireTimer i s) = rootClass s"
  "storage (fireTimer i s) = storage s"
  by (simp_all add: fireTimer_def fire_frame)

lemma setTheme_frame:
  "animatedElements (snd (setTheme m n s)) = animatedElements s"
  "opacity (snd (setTheme m n s)) = opacity s"
  "opacityWrites (snd (setTheme m n s)) = opacityWrites s"
  by (simp_all add: setTheme_def Let_def)

lemma theme_init_frame:
  "animatedElements (snd (theme_init m s)) = animatedElements s"
  "opacity (snd (theme_init m s)) = opacity s"
  "opacityWrites (snd (theme_init m s)) = opacityWrites s"
  by (simp_all add: theme_init_def Let_def setTheme_frame)

lemma theme_toggle_frame:
  "animatedElements (snd (theme_toggle m s)) = animatedElements s"
  "opacity (snd (theme_toggle m s)) = opacity s"
  "opacityWrites (snd (theme_toggle m s)) = opacityWrites s"
  by (simp_all add: theme_toggle_def Let_def setTheme_frame)

lemma handleCardHover_frame:
  "animatedElements (handleCardHover e s) = animatedElements s"
  "opacity (handleCardHover e s) = opacity s"
  "opacityWrites (handleCardHover e s) = opacityWrites s"
  "rootClass (handleCardHover e s) = rootClass s"
  "storage (handleCardHover e s) = storage s"
  by (simp_all add: handleCardHover_def Let_def)

lemma handleCardLeave_frame:
  "animatedElements (handleCardLeave e s) = animatedElements s"
  "opacity (handleCardLeave e s) = opacity s"
  "opacityWrites (handleCardLeave e s) = opacityWrites s"
  "rootClass (handleCardLeave e s) = rootClass s"
  "storage (handleCardLeave e s) = storage s"
  by (simp_all add: handleCardLeave_def Let_def)

lemma handleIconHover_frame:
  "animatedElements (handleIconHover e s) = animatedElements s"
  "opacity (handleIconHover e s) = opacity s"
  "opacityWrites (handleIconHover e s) = opacityWrites s"
  "rootClass (handleIconHover e s) = rootClass s"
  "storage (handleIconHover e s) = storage s"
  by (simp_all add: handleIconHover_def)

lemma handleIconLeave_frame:
  "animatedElements (handleIconLeave e s) = animatedElements s"
  "opacity (handleIconLeave e s) = opacity s"
  "opacityWrites (handleIconLeave e s) = opacityWrites s"
  "rootClass (handleIconLeave e s) = rootClass s"
  "storage (handleIconLeave e s) = storage s"
  by (simp_all add: handleIconLeave_def)

lemma initScrollProgress_frame:
  "animatedElements (initScrollProgress s) = animatedElements s"
  "opacity (initScrollProgress s) = opacity s"
  "opacityWrites (initScrollProgress s) = opacityWrites s"
  "rootClass (initScrollProgress s) = rootClass s"
  "storage (initScrollProgress s) = storage s"
  by (simp_all add: initScrollProgress_def Let_def)

lemma handleLoad_frame:
  "animatedElements (handleLoad loader s) = animatedElements s"
  "rootClass (handleLoad loader s) = rootClass s"
  "storage (handleLoad loader s) = storage s"
  by (simp_all add: handleLoad_def split: option.split)

lemmas other_frames =
  toggleMobileMenu_frame closeMobileMenu_frame handleNavbarScroll_frame
  handleSmoothScroll_frame handleKeyDown_frame handleResize_frame
  updateScrollProgress_frame handleContactForm_frame showMessage_frame
  fireTimer_frame handleCardHover_frame handleCardLeave_frame
  handleIconHover_frame handleIconLeave_frame initScrollProgress_frame

subsection \<open>The fade-in scan\<close>

lemma revealElement_theme:
  "rootClass (revealElement v s e) = rootClass s"
  "storage (revealElement v s e) = storage s"
  "timers (revealElement v s e) = timers s"
  "inThrottle (revealElement v s e) = inThrottle s"
  by (simp_all add: revealElement_def Let_def)

lemma foldl_reveal_theme:
  "rootClass (foldl (revealElement v) s es) = rootClass s \<and>
   storage (foldl (revealElement v) s es) = storage s \<and>
   timers (foldl (revealElement v) s es) = timers s \<and>
   inThrottle (foldl (revealElement v) s es) = inThrottle s"
  by (induction es arbitrary: s) (simp_all add: revealElement_theme)

lemma animateOnScroll_frame:
  "rootClass (animateOnScroll v s) = rootClass s"
  "storage (animateOnScroll v s) = storage s"
  by (simp_all add: animateOnScroll_def throttle_frame animateOnScroll_body_def foldl_reveal_theme)

lemma revealElement_mono:
  "animatedElements s \<subseteq> animatedElements (revealElement v s e)"
  by (auto simp: revealElement_def Let_def)

lemma foldl_reveal_mono:
  "animatedElements s \<subseteq> animatedElements (foldl (revealElement v) s es)"
proof (induction es arbitrary: s)
  case Nil
  show ?case by simp
next
  case (Cons x xs)
  have "animatedElements s \<subseteq> animatedElements (revealElement v s x)"
    by (rule revealElement_mono)
  also have "\<dots> \<subseteq> animatedElements (foldl (revealElement v) (revealElement v s x) xs)"
    by (rule Cons.IH)
  finally show ?case by simp
qed

text \<open>
  An element that is already in the set with opacity \<^verbatim>\<open>'1'\<close> stays so during a
  scan; an element above the threshold is in that condition after its own turn,
  provided it was so before whenever it was in the set.
\<close>

lemma revealElement_keeps:
  "e \<in> animatedElements s \<and> opacity s e = lit ''1'' \<Longrightarrow>
     e \<in> animatedElements (revealElement v s x) \<and> opacity (revealElement v s x) e = lit ''1''"
  by (auto simp: revealElement_def Let_def)

lemma foldl_reveal_keeps:
  "e \<in> animatedElements s \<and> opacity s e = lit ''1'' \<Longrightarrow>
     e \<in> animatedElements (foldl (revealElement v) s es) \<and>
     opacity (foldl (revealElement v) s es) e = lit ''1''"
proof (induction es arbitrary: s)
  case Nil
  then show ?case by simp
next
  case (Cons x xs)
  from revealElement_keeps [OF Cons.prems, of v x]
  show ?case unfolding foldl_Cons by (rule Cons.IH)
qed

lemma revealElement_weak:
  "(e \<in> animatedElements s \<longrightarrow> opacity s e = lit ''1'') \<Longrightarrow>
     (e \<in> animatedElements (revealElement v s x) \<longrightarrow> opacity (revealElement v s x) e = lit ''1'')"
  by (auto simp: revealElement_def Let_def)

lemma revealElement_sets:
  "(e \<in> animatedElements s \<longrightarrow> opacity s e = lit ''1'') \<Longrightarrow>
     rectTop v e < js_times_0_8 (innerHeight v) \<Longrightarrow>
     e \<in> animatedElements (revealElement v s e) \<and> opacity (revealElement v s e) e = lit ''1''"
  by (auto simp: revealElement_def Let_def)

lemma foldl_reveal_sets:
  "(e \<in> animatedElements s \<longrightarrow> opacity s e = lit ''1'') \<Longrightarrow> e \<in> set es \<Longrightarrow>
     rectTop v e < js_times_0_8 (innerHeight v) \<Longrightarrow>
     e \<in> animatedElements (foldl (revealElement v) s es) \<and>
     opacity (foldl (revealElement v) s es) e = lit ''1''"
proof (induction es arbitrary: s)
  case Nil
  then show ?case by simp
next
  case (Cons x xs)
  show ?case
  proof (cases "e = x")
    case True
    from revealElement_sets [OF Cons.prems(1) Cons.prems(3)] True
    have "e \<in> animatedElements (revealElement v s x) \<and>
          opacity (revealElement v s x) e = lit ''1''"
      by simp
    from foldl_reveal_keeps [OF this] show ?thesis by simp
  next
    case False
    with Cons.prems have mem: "e \<in> set xs" by simp
    from revealElement_weak [OF Cons.prems(1)]
    have "e \<in> animatedElements (revealElement v s x) \<longrightarrow>
          opacity (revealElement v s x) e = lit ''1''" .
    from Cons.IH [OF this mem Cons.prems(3)] show ?thesis by simp
  qed
qed

lemma revealElement_adds:
  "rectTop v e < js_times_0_8 (innerHeight v) \<Longrightarrow> e \<in> animatedElements (revealElement v s e)"
  by (simp add: revealElement_def Let_def)

lemma foldl_reveal_adds:
  "e \<in> set es \<Longrightarrow> rectTop v e < js_times_0_8 (innerHeight v) \<Longrightarrow>
     e \<in> animatedElements (foldl (revealElement v) s es)"
proof (induction es arbitrary: s)
  case Nil
  then show ?case by simp
next
  case (Cons x xs)
  show ?case
  proof (cases "e = x")
    case True
    with Cons.prems have "e \<in> animatedElements (revealElement v s x)"
      by (simp add: revealElement_adds)
    with foldl_reveal_mono [of "revealElement v s x" v xs] show ?thesis by auto
  next
    case False
    with Cons.prems have "e \<in> set xs" by simp
    from Cons.IH [OF this Cons.prems(2)] show ?thesis by simp
  qed
qed

lemma revealElement_inv:
  "reveal_inv s \<Longrightarrow> reveal_inv (revealElement v s e)"
  by (auto simp: reveal_inv_def revealElement_def Let_def)

lemma foldl_reveal_inv:
  "reveal_inv s \<Longrightarrow> reveal_inv (foldl (revealElement v) s es)"
  by (induction es arbitrary: s) (simp_all add: revealElement_inv)

lemma reveal_inv_cong:
  "animatedElements s' = animatedElements s \<Longrightarrow>
     opacityWrites s' = opacityWrites s \<Longrightarrow> reveal_inv s' = reveal_inv s"
  by (simp add: reveal_inv_def)

lemma animateOnScroll_inv:
  "reveal_inv s \<Longrightarrow> reveal_inv (animateOnScroll v s)"
proof (cases "inThrottle s FadeInCell")
  case True
  assume "reveal_inv s"
  with True show ?thesis by (simp add: animateOnScroll_def throttle_def)
next
  case False
  assume "reveal_inv s"
  then have "reveal_inv (animateOnScroll_body v s)"
    by (simp add: animateOnScroll_body_def foldl_reveal_inv)
  moreover have "reveal_inv (animateOnScroll v s) = reveal_inv (animateOnScroll_body v s)"
    using False by (intro reveal_inv_cong) (simp_all add: animateOnScroll_def throttle_frame)
  ultimately show ?thesis by simp
qed

lemma handleLoad_inv:
  "reveal_inv s \<Longrightarrow> reveal_inv (handleLoad loader s)"
  by (simp add: reveal_inv_def handleLoad_def lit_def split: option.split)

lemma animateOnScroll_mono:
  "animatedElements s \<subseteq> animatedElements (animateOnScroll v s)"
  by (simp add: animateOnScroll_def throttle_frame animateOnScroll_body_def foldl_reveal_mono)

lemma animateOnScroll_sets:
  "\<not> inThrottle s FadeInCell \<Longrightarrow> e \<in> set (fadeInElements v) \<Longrightarrow>
     rectTop v e < js_times_0_8 (innerHeight v) \<Longrightarrow>
     (e \<in> animatedElements s \<longrightarrow> opacity s e = lit ''1'') \<Longrightarrow>
     e \<in> animatedElements (animateOnScroll v s) \<and> opacity (animateOnScroll v s) e = lit ''1''"
  by (simp add: animateOnScroll_def throttle_frame animateOnScroll_body_def foldl_reveal_sets)

subsection \<open>Operations and runs\<close>

lemma exec_mono: "animatedElements s \<subseteq> animatedElements (exec s op)"
  by (cases op)
     (simp_all add: other_frames handleLoad_frame
        theme_init_frame setTheme_frame theme_toggle_frame animateOnScroll_mono)

lemma exec_inv: "reveal_inv s \<Longrightarrow> reveal_inv (exec s op)"
proof (cases op)
  case (AnimateOnScroll v)
  assume "reveal_inv s"
  with AnimateOnScroll show ?thesis by (simp add: animateOnScroll_inv)
next
  case (HandleLoad loader)
  assume "reveal_inv s"
  with HandleLoad show ?thesis by (simp add: handleLoad_inv)
qed (simp_all add: reveal_inv_def other_frames
        theme_init_frame setTheme_frame theme_toggle_frame)

lemma run_Nil [simp]: "run s [] = s"
  by (simp add: run_def)

lemma run_Cons [simp]: "run s (op # ops) = run (exec s op) ops"
  by (simp add: run_def)

lemma run_append: "run s (ops1 @ ops2) = run (run s ops1) ops2"
  by (simp add: run_def)

lemma run_mono: "animatedElements s \<subseteq> animatedElements (run s ops)"
proof (induction ops arbitrary: s)
  case Nil
  show ?case by simp
next
  case (Cons op ops)
  have "animatedElements s \<subseteq> animatedElements (exec s op)"
    by (rule exec_mono)
  also have "\<dots> \<subseteq> animatedElements (run (exec s op) ops)"
    by (rule Cons.IH)
  finally show ?case by simp
qed

lemma run_inv: "reveal_inv s \<Longrightarrow> reveal_inv (run s ops)"
  by (induction ops arbitrary: s) (simp_all add: exec_inv)

lemma freshly_loaded_inv: "freshly_loaded s \<Longrightarrow> reveal_inv s"
  by (simp add: freshly_loaded_def reveal_inv_def)

lemma reveal_inv_count:
  "reveal_inv s \<Longrightarrow>
     count_list (opacityWrites s) (e, lit ''1'') = (if e \<in> animatedElements s then 1 else 0)"
  by (simp add: reveal_inv_def)

lemma exec_agree:
  "storage s (lit ''theme'') = Some (rootClass s) \<Longrightarrow> storage_writable op \<Longrightarrow>
     storage (exec s op) (lit ''theme'') = Some (rootClass (exec s op))"
  by (cases op)
     (simp_all add: other_frames handleLoad_frame animateOnScroll_frame
        theme_init_def theme_toggle_def setTheme_def Let_def)

lemma run_agree:
  "storage s (lit ''theme'') = Some (rootClass s) \<Longrightarrow> \<forall>op \<in> set ops. storage_writable op \<Longrightarrow>
     storage (run s ops) (lit ''theme'') = Some (rootClass (run s ops))"
  by (induction ops arbitrary: s) (simp_all add: exec_agree)

subsection \<open>Class lists and the mobile menu\<close>

lemma in_set_classList_toggle:
  "x \<in> set (classList_toggle tok cl) \<longleftrightarrow> (x \<in> set cl) \<noteq> (x = tok)"
  by (auto simp: classList_toggle_def)

lemma set_classList_toggle4:
  "set (classList_toggle b (classList_toggle a (classList_toggle b (classList_toggle a cl)))) = set cl"
proof (rule set_eqI)
  fix x
  show "x \<in> set (classList_toggle b (classList_toggle a (classList_toggle b (classList_toggle a cl))))
          \<longleftrightarrow> x \<in> set cl"
    unfolding in_set_classList_toggle by blast
qed

lemma toggleMobileMenu_isMenuOpen:
  "isMenuOpen (toggleMobileMenu s) = (\<not> isMenuOpen s)"
  by (simp add: toggleMobileMenu_def Let_def)

lemma toggleMobileMenu_iconClasses:
  "iconClasses (toggleMobileMenu s) =
     classList_toggle (lit ''fa-times'') (classList_toggle (lit ''fa-bars'') (iconClasses s))"
  by (simp add: toggleMobileMenu_def Let_def)

lemma toggleMobileMenu_bodyOverflow:
  "bodyOverflow (toggleMobileMenu s) = (if isMenuOpen s then lit '''' else lit ''hidden'')"
  by (simp add: toggleMobileMenu_def Let_def)

lemmas toggleMobileMenu_fields =
  toggleMobileMenu_isMenuOpen toggleMobileMenu_iconClasses toggleMobileMenu_bodyOverflow

subsection \<open>The matcher decides membership in the language\<close>

lemma nullable_iff: "nullable r \<longleftrightarrow> [] \<in> lang r"
proof (induction r)
  case (Star r)
  have "concat [] \<in> lang (Star r)"
    unfolding lang.simps by (rule CollectI, rule exI [of _ "[]"]) simp
  then show ?case by simp
qed auto

lemma star_ConsD:
  assumes "set ws \<subseteq> A" and "concat ws = c # w"
  shows "\<exists>u vs. c # u \<in> A \<and> set vs \<subseteq> A \<and> w = u @ concat vs"
  using assms
proof (induction ws)
  case Nil
  then show ?case by simp
next
  case (Cons x xs)
  show ?case
  proof (cases x)
    case Nil
    with Cons.prems have "set xs \<subseteq> A" and "concat xs = c # w" by simp_all
    then show ?thesis by (rule Cons.IH)
  next
    case (Cons y u)
    with Cons.prems have "c # u \<in> A" and "set xs \<subseteq> A" and "w = u @ concat xs"
      by simp_all
    then show ?thesis by blast
  qed
qed

lemma star_Cons_iff:
  "c # w \<in> lang (Star r) \<longleftrightarrow> (\<exists>u v. c # u \<in> lang r \<and> v \<in> lang (Star r) \<and> w = u @ v)"
proof
  assume "c # w \<in> lang (Star r)"
  then obtain ws where "set ws \<subseteq> lang r" and "concat ws = c # w"
    by auto
  from star_ConsD [OF this] obtain u vs
    where "c # u \<in> lang r" and "set vs \<subseteq> lang r" and "w = u @ concat vs"
    by blast
  then show "\<exists>u v. c # u \<in> lang r \<and> v \<in> lang (Star r) \<and> w = u @ v"
    by auto
next
  assume "\<exists>u v. c # u \<in> lang r \<and> v \<in> lang (Star r) \<and> w = u @ v"
  then obtain u vs where u: "c # u \<in> lang r" and vs: "set vs \<subseteq> lang r"
    and w: "w = u @ concat vs"
    by auto
  have "set ((c # u) # vs) \<subseteq> lang r \<and> c # w = concat ((c # u) # vs)"
    using u vs w by simp
  then show "c # w \<in> lang (Star r)"
    unfolding lang.simps by blast
qed

lemma lang_deriv: "w \<in> lang (deriv c r) \<longleftrightarrow> c # w \<in> lang r"
proof (induction r arbitrary: w)
  case (Cat r q)
  have "c # w \<in> lang (Cat r q) \<longleftrightarrow>
          ([] \<in> lang r \<and> c # w \<in> lang q) \<or>
          (\<exists>u v. c # u \<in> lang r \<and> v \<in> lang q \<and> w = u @ v)"
    by (auto simp: Cons_eq_append_conv) 
  with Cat show ?case
    by (auto simp: nullable_iff)
next
  case (Star r)
  have "w \<in> lang (deriv c (Star r)) \<longleftrightarrow>
          (\<exists>u v. u \<in> lang (deriv c r) \<and> v \<in> lang (Star r) \<and> w = u @ v)"
    by auto
  with Star show ?case
    by (simp only: star_Cons_iff)
qed auto

lemma regex_test_iff: "regex_test r s \<longleftrightarrow> s \<in> lang r"
  unfolding regex_test_def
  by (induction s arbitrary: r) (simp_all add: nullable_iff lang_deriv)

subsection \<open>The language of the e-mail pattern\<close>

lemma lang_Star_NotIn:
  "lang (Star (NotIn items)) = {w. \<forall>c \<in> set w. \<not> list_ex (\<lambda>i. item_has i c) items}"
proof (rule set_eqI, rule iffI)
  fix w
  assume "w \<in> lang (Star (NotIn items))"
  then obtain ws where ws: "set ws \<subseteq> lang (NotIn items)" and w: "w = concat ws"
    by auto
  from ws have "\<forall>c \<in> set (concat ws). \<not> list_ex (\<lambda>i. item_has i c) items"
    by (induction ws) auto
  with w show "w \<in> {w. \<forall>c \<in> set w. \<not> list_ex (\<lambda>i. item_has i c) items}"
    by simp
next
  fix w
  assume "w \<in> {w. \<forall>c \<in> set w. \<not> list_ex (\<lambda>i. item_has i c) items}"
  then have "set (map (\<lambda>c. [c]) w) \<subseteq> lang (NotIn items)"
    by auto
  moreover have "w = concat (map (\<lambda>c. [c]) w)"
    by (induction w) simp_all
  ultimately show "w \<in> lang (Star (NotIn items))"
    unfolding lang.simps(7) by blast
qed

lemma lang_Plus_NotIn:
  "lang (Plus (NotIn items)) =
     {w. w \<noteq> [] \<and> (\<forall>c \<in> set w. \<not> list_ex (\<lambda>i. item_has i c) items)}"
proof (rule set_eqI, rule iffI)
  fix w
  assume "w \<in> lang (Plus (NotIn items))"
  then obtain c v where "w = [c] @ v" and "\<not> list_ex (\<lambda>i. item_has i c) items"
    and "v \<in> lang (Star (NotIn items))"
    unfolding Plus_def lang.simps(5) lang.simps(4) by blast
  then show "w \<in> {w. w \<noteq> [] \<and> (\<forall>c \<in> set w. \<not> list_ex (\<lambda>i. item_has i c) items)}"
    unfolding lang_Star_NotIn by simp
next
  fix w
  assume "w \<in> {w. w \<noteq> [] \<and> (\<forall>c \<in> set w. \<not> list_ex (\<lambda>i. item_has i c) items)}"
  then obtain c v where w: "w = c # v" and c: "\<not> list_ex (\<lambda>i. item_has i c) items"
    and v: "\<forall>x \<in> set v. \<not> list_ex (\<lambda>i. item_has i x) items"
    by (cases w) auto
  from c have "[c] \<in> lang (NotIn items)"
    by simp
  moreover from v have "v \<in> lang (Star (NotIn items))"
    unfolding lang_Star_NotIn by simp
  moreover have "w = [c] @ v"
    using w by simp
  ultimately show "w \<in> lang (Plus (NotIn items))"
    unfolding Plus_def lang.simps(5) by blast
qed

lemma lang_emailRegex:
  "s \<in> lang emailRegex \<longleftrightarrow>
     (\<exists>a b c. a \<in> lang (Plus (NotIn [SpaceEscape, Single 0x40])) \<and>
              b \<in> lang (Plus (NotIn [SpaceEscape, Single 0x40])) \<and>
              c \<in> lang (Plus (NotIn [SpaceEscape, Single 0x40])) \<and>
              s = a @ [0x40] @ b @ [0x2E] @ c)"
  unfolding emailRegex_def by fastforce

lemma isValidEmail_iff_pattern: "isValidEmail s \<longleftrightarrow> matches_email_pattern s"
proof -
  have "isValidEmail s \<longleftrightarrow> s \<in> lang emailRegex"
    by (simp add: isValidEmail_def regex_test_iff)
  also have "\<dots> \<longleftrightarrow> matches_email_pattern s"
    unfolding lang_emailRegex lang_Plus_NotIn matches_email_pattern_def
    by (simp add: ball_Un) blast
  finally show ?thesis .
qed

lemma isValidEmail_sample: "isValidEmail (lit ''a@b.co'')"
  by (simp add: isValidEmail_def regex_test_def emailRegex_def Plus_def lit_def isWhiteSpace_def)

lemma split_at_unique:
  "xs @ x # ys = us @ x # vs \<Longrightarrow> x \<notin> set us \<Longrightarrow> x \<notin> set vs \<Longrightarrow> xs = us \<and> ys = vs"
proof (induction xs arbitrary: us)
  case Nil
  then show ?case by (cases us) auto
next
  case (Cons a xs)
  show ?case
  proof (cases us)
    case Nil
    with Cons.prems show ?thesis by auto
  next
    case (Cons b us')
    with Cons.prems have "xs @ x # ys = us' @ x # vs" and "x \<notin> set us'" and "a = b"
      by simp_all
    with Cons.IH [of us'] Cons.prems(3) Cons show ?thesis by simp
  qed
qed

lemma isValidEmail_needs_at: "0x40 \<notin> set s \<Longrightarrow> \<not> isValidEmail s"
  by (auto simp: isValidEmail_iff_pattern matches_email_pattern_def)

lemma isValidEmail_needs_domain_dot:
  assumes "0x2E \<notin> set domainPart"
  shows "\<not> isValidEmail (localPart @ [0x40] @ domainPart)"
proof
  assume "isValidEmail (localPart @ [0x40] @ domainPart)"
  then obtain a b c where eq: "localPart @ [0x40] @ domainPart = a @ [0x40] @ b @ [0x2E] @ c"
    and ok: "\<forall>x \<in> set (a @ b @ c). x \<noteq> 0x40"
    unfolding isValidEmail_iff_pattern matches_email_pattern_def by blast
  from ok have "(0x40::jschar) \<notin> set a" and "(0x40::jschar) \<notin> set (b @ [0x2E] @ c)"
    by auto
  with eq have "domainPart = b @ [0x2E] @ c"
    using split_at_unique [of localPart "0x40" domainPart a "b @ [0x2E] @ c"] by simp
  with assms show False by simp
qed

subsection \<open>Messages and validation\<close>

lemma removeNode_fields:
  "nodesBefore (removeNode i s) = filter (\<lambda>n. nodeId n \<noteq> i) (nodesBefore s)"
  "formKids (removeNode i s) = filter (\<lambda>n. nodeId n \<noteq> i) (formKids s)"
  "nodesAfter (removeNode i s) = filter (\<lambda>n. nodeId n \<noteq> i) (nodesAfter s)"
  "timers (removeNode i s) = timers s"
  "nextNodeId (removeNode i s) = nextNodeId s"
  by (simp_all add: removeNode_def)

lemma showMessage_timers:
  "timers (showMessage msg type s) = timers s @ [(5000, RemoveNode (nextNodeId s))]"
  by (simp add: showMessage_def Let_def removeNode_fields split: option.split)

lemma showMessage_nextNodeId:
  "nextNodeId (showMessage msg type s) = Suc (nextNodeId s)"
  by (simp add: showMessage_def Let_def removeNode_fields split: option.split)

lemma showMessage_nodes:
  "nodesBefore (showMessage msg type s) =
     (case querySelector_formMessage s of None \<Rightarrow> nodesBefore s
      | Some n \<Rightarrow> filter (\<lambda>x. nodeId x \<noteq> nodeId n) (nodesBefore s))"
  "formKids (showMessage msg type s) =
     \<lparr>nodeId = nextNodeId s, classList = messageClasses type, textContent = msg\<rparr> #
     (case querySelector_formMessage s of None \<Rightarrow> formKids s
      | Some n \<Rightarrow> filter (\<lambda>x. nodeId x \<noteq> nodeId n) (formKids s))"
  "nodesAfter (showMessage msg type s) =
     (case querySelector_formMessage s of None \<Rightarrow> nodesAfter s
      | Some n \<Rightarrow> filter (\<lambda>x. nodeId x \<noteq> nodeId n) (nodesAfter s))"
  by (simp_all add: showMessage_def Let_def removeNode_fields split: option.split)

lemma validateContactForm_first_failure:
  "validateContactForm d s =
     (case first_failure d of None \<Rightarrow> (True, s)
      | Some msg \<Rightarrow> (False, showMessage msg (lit ''error'') s))"
  by (simp add: validateContactForm_def first_failure_def validation_checks_def)

lemma handleContactForm_invalid:
  "first_failure (formValues s) = Some msg \<Longrightarrow>
     handleContactForm s = showMessage msg (lit ''error'') s"
  by (simp add: handleContactForm_def validateContactForm_first_failure)

lemma handleContactForm_valid:
  "first_failure (formValues s) = None \<Longrightarrow>
     handleContactForm s =
       s\<lparr>submitLabel := lit ''Sending... <i class=\"fas fa-spinner fa-spin ml-2\"></i>'',
         submitDisabled := True,
         timers := timers s @ [(2000, SubmitResolve (formValues s) (submitLabel s))]\<rparr>"
  by (simp add: handleContactForm_def validateContactForm_first_failure submitContactForm_def)

lemma isFormMessage_messageDiv:
  "isFormMessage \<lparr>nodeId = i, classList = messageClasses type, textContent = msg\<rparr>"
  by (simp add: isFormMessage_def messageClasses_def)

subsection \<open>Evaluating the rounded product\<close>

lemma bitLength_le: "n < 2 ^ k \<Longrightarrow> bitLength n \<le> k"
proof (induction k arbitrary: n)
  case 0
  then show ?case by (simp add: bitLength.simps)
next
  case (Suc k)
  show ?case
  proof (cases "n = 0")
    case True
    then show ?thesis by (simp add: bitLength.simps)
  next
    case False
    from Suc.prems have "n div 2 < 2 ^ k" by simp
    then have "bitLength (n div 2) \<le> k" by (rule Suc.IH)
    with False show ?thesis by (subst bitLength.simps) simp
  qed
qed

lemma bitLength_gt: "2 ^ k \<le> n \<Longrightarrow> k < bitLength n"
proof (induction k arbitrary: n)
  case 0
  then have "n \<noteq> 0" by simp
  then show ?case by (subst bitLength.simps) simp
next
  case (Suc k)
  have "(0::nat) < 2 ^ Suc k" by simp
  then have "0 < n" using Suc.prems by (rule less_le_trans)
  then have "n \<noteq> 0" by simp
  from Suc.prems have "2 ^ k \<le> n div 2" by simp
  from Suc.IH [OF this] \<open>n \<noteq> 0\<close> show ?case by (subst bitLength.simps) simp
qed

lemma bitLength_eqI: "2 ^ k \<le> n \<Longrightarrow> n < 2 ^ Suc k \<Longrightarrow> bitLength n = Suc k"
  using bitLength_le [of n "Suc k"] bitLength_gt [of k n] by simp

lemma js_times_0_8_344: "js_times_0_8 344 = 4841369599423283 / 2 ^ 44"
proof -
  have "bitLength 1239390617452360568 = Suc 60"
    by (rule bitLength_eqI) simp_all
  then have "round53 1239390617452360568 = 1239390617452360448"
    by (simp add: round53_def Let_def)
  then show ?thesis
    by (simp add: js_times_0_8_def)
qed

lemma js_times_0_8_600: "js_times_0_8 600 = 480"
proof -
  have "bitLength 2161727821137838200 = Suc 60"
    by (rule bitLength_eqI) simp_all
  then have "round53 2161727821137838200 = 2161727821137838080"
    by (simp add: round53_def Let_def)
  then show ?thesis
    by (simp add: js_times_0_8_def)
qed

section \<open>Claims\<close>

text \<open>
  C1 (as amended).  For every current root-element class value outside
  \<open>{light, dark}\<close>, the theme toggle treats it as not dark and sets the preference
  to \<open>dark\<close>: it applies \<open>dark\<close> as the root element's class and, storage being
  available, persists \<open>dark\<close> under the storage key \<open>theme\<close>.  The same holds when
  such a value comes from storage through the initialisation.
\<close>

theorem theme_toggle_unknown_class:
  "(rootClass s \<notin> {lit ''light'', lit ''dark''} \<longrightarrow>
      rootClass (snd (theme_toggle mode s)) = lit ''dark'' \<and>
      (mode = Available \<longrightarrow>
         storage (snd (theme_toggle mode s)) (lit ''theme'') = Some (lit ''dark''))) \<and>
   (storage s (lit ''theme'') = Some t \<and> t \<notin> {lit ''light'', lit ''dark''} \<longrightarrow>
      rootClass (snd (theme_toggle Available (snd (theme_init Available s)))) = lit ''dark'' \<and>
      storage (snd (theme_toggle Available (snd (theme_init Available s)))) (lit ''theme'')
        = Some (lit ''dark''))"
  by (simp add: theme_toggle_def theme_init_def setTheme_def Let_def)

theorem theme_toggle_unknown_class_witness:
  "rootClass (sample_page\<lparr>rootClass := lit ''blue''\<rparr>) \<notin> {lit ''light'', lit ''dark''} \<and>
   rootClass (snd (theme_toggle Available (sample_page\<lparr>rootClass := lit ''blue''\<rparr>)))
     = lit ''dark'' \<and>
   storage (snd (theme_toggle Available (sample_page\<lparr>rootClass := lit ''blue''\<rparr>)))
     (lit ''theme'') = Some (lit ''dark'') \<and>
   storage (sample_page\<lparr>storage := [lit ''theme'' \<mapsto> lit ''blue'']\<rparr>) (lit ''theme'')
     = Some (lit ''blue'') \<and>
   lit ''blue'' \<notin> {lit ''light'', lit ''dark''} \<and>
   rootClass (snd (theme_toggle Available
                (snd (theme_init Available
                   (sample_page\<lparr>storage := [lit ''theme'' \<mapsto> lit ''blue'']\<rparr>)))))
     = lit ''dark''"
proof -
  have h: "rootClass (sample_page\<lparr>rootClass := lit ''blue''\<rparr>) \<notin> {lit ''light'', lit ''dark''}"
    by (simp add: lit_def)
  have g: "storage (sample_page\<lparr>storage := [lit ''theme'' \<mapsto> lit ''blue'']\<rparr>) (lit ''theme'')
             = Some (lit ''blue'')"
    and b: "lit ''blue'' \<notin> {lit ''light'', lit ''dark''}"
    by (simp_all add: lit_def)
  from theme_toggle_unknown_class [of "sample_page\<lparr>rootClass := lit ''blue''\<rparr>" Available] h
  have "rootClass (snd (theme_toggle Available (sample_page\<lparr>rootClass := lit ''blue''\<rparr>)))
          = lit ''dark'' \<and>
        storage (snd (theme_toggle Available (sample_page\<lparr>rootClass := lit ''blue''\<rparr>)))
          (lit ''theme'') = Some (lit ''dark'')"
    by blast
  moreover
  from theme_toggle_unknown_class
         [of "sample_page\<lparr>storage := [lit ''theme'' \<mapsto> lit ''blue'']\<rparr>" _ "lit ''blue''"] g b
  have "rootClass (snd (theme_toggle Available
                     (snd (theme_init Available
                        (sample_page\<lparr>storage := [lit ''theme'' \<mapsto> lit ''blue'']\<rparr>)))))
          = lit ''dark''"
    by blast
  ultimately show ?thesis using h g b by blast
qed

text \<open>
  C1 as stated fails: with the root class \<open>blue\<close>, which is neither known theme, and
  storage available, the toggle neither applies nor persists \<open>light\<close>.
\<close>

theorem theme_toggle_unknown_class_counterexample:
  "rootClass (sample_page\<lparr>rootClass := lit ''blue''\<rparr>) \<notin> {lit ''light'', lit ''dark''} \<and>
   rootClass (snd (theme_toggle Available (sample_page\<lparr>rootClass := lit ''blue''\<rparr>)))
     \<noteq> lit ''light'' \<and>
   storage (snd (theme_toggle Available (sample_page\<lparr>rootClass := lit ''blue''\<rparr>)))
     (lit ''theme'') \<noteq> Some (lit ''light'')"
  by (simp add: theme_toggle_def setTheme_def Let_def lit_def)

text \<open>
  C2.  Validation checks the fields in the fixed order name non-empty, e-mail
  non-empty and matching the pattern, subject non-empty, message non-empty, where a
  field is empty when trimming leaves nothing.  It stops at the first check that
  does not pass and shows the message for that field and no other.  In that case
  handling the submission amounts to showing that one message: one new node, the
  message's removal as the only new timer, and no submission.  When every check
  passes nothing is shown and the submission is started.
\<close>

theorem validateContactForm_order:
  "validateContactForm d s =
     (case first_failure d of None \<Rightarrow> (True, s)
      | Some msg \<Rightarrow> (False, showMessage msg (lit ''error'') s)) \<and>
   (first_failure (formValues s) = Some msg \<longrightarrow>
      handleContactForm s = showMessage msg (lit ''error'') s \<and>
      formKids (handleContactForm s) \<noteq> [] \<and>
      hd (formKids (handleContactForm s)) =
        \<lparr>nodeId = nextNodeId s, classList = messageClasses (lit ''error''),
         textContent = msg\<rparr> \<and>
      nextNodeId (handleContactForm s) = Suc (nextNodeId s) \<and>
      timers (handleContactForm s) = timers s @ [(5000, RemoveNode (nextNodeId s))] \<and>
      submitLabel (handleContactForm s) = submitLabel s \<and>
      submitDisabled (handleContactForm s) = submitDisabled s) \<and>
   (first_failure (formValues s) = None \<longrightarrow>
      documentNodes (handleContactForm s) = documentNodes s \<and>
      timers (handleContactForm s) =
        timers s @ [(2000, SubmitResolve (formValues s) (submitLabel s))] \<and>
      submitDisabled (handleContactForm s))"
proof (intro conjI impI)
  show "validateContactForm d s =
     (case first_failure d of None \<Rightarrow> (True, s)
      | Some msg \<Rightarrow> (False, showMessage msg (lit ''error'') s))"
    by (rule validateContactForm_first_failure)
next
  assume f: "first_failure (formValues s) = Some msg"
  show h: "handleContactForm s = showMessage msg (lit ''error'') s"
    by (rule handleContactForm_invalid [OF f])
  show "formKids (handleContactForm s) \<noteq> []"
    unfolding h by (simp add: showMessage_nodes)
  show "hd (formKids (handleContactForm s)) =
        \<lparr>nodeId = nextNodeId s, classList = messageClasses (lit ''error''),
         textContent = msg\<rparr>"
    unfolding h by (simp add: showMessage_nodes)
  show "nextNodeId (handleContactForm s) = Suc (nextNodeId s)"
    unfolding h by (rule showMessage_nextNodeId)
  show "timers (handleContactForm s) = timers s @ [(5000, RemoveNode (nextNodeId s))]"
    unfolding h by (rule showMessage_timers)
  show "submitLabel (handleContactForm s) = submitLabel s"
    unfolding h by (simp add: showMessage_def Let_def removeNode_def split: option.split)
  show "submitDisabled (handleContactForm s) = submitDisabled s"
    unfolding h by (simp add: showMessage_def Let_def removeNode_def split: option.split)
next
  assume f: "first_failure (formValues s) = None"
  show "documentNodes (handleContactForm s) = documentNodes s"
    unfolding handleContactForm_valid [OF f] by (simp add: documentNodes_def)
  show "timers (handleContactForm s) =
        timers s @ [(2000, SubmitResolve (formValues s) (submitLabel s))]"
    unfolding handleContactForm_valid [OF f] by simp
  show "submitDisabled (handleContactForm s)"
    unfolding handleContactForm_valid [OF f] by simp
qed

theorem validateContactForm_order_witness:
  "first_failure (formValues sample_page) = Some (lit ''Please enter your name.'') \<and>
   handleContactForm sample_page
     = showMessage (lit ''Please enter your name.'') (lit ''error'') sample_page \<and>
   timers (handleContactForm sample_page) = [(5000, RemoveNode 2)] \<and>
   first_failure (formValues (sample_page\<lparr>formValues := sample_formdata\<rparr>)) = None \<and>
   timers (handleContactForm (sample_page\<lparr>formValues := sample_formdata\<rparr>))
     = [(2000, SubmitResolve sample_formdata (lit ''Send Message''))]"
proof -
  have f1: "first_failure (formValues sample_page) = Some (lit ''Please enter your name.'')"
    by (simp add: first_failure_def validation_checks_def sample_page_def trim_def lit_def)
  have valid: "isValidEmail (email sample_formdata)"
    by (simp add: sample_formdata_def isValidEmail_sample)
  have f2: "first_failure (formValues (sample_page\<lparr>formValues := sample_formdata\<rparr>)) = None"
    using valid
    by (simp add: first_failure_def validation_checks_def)
       (simp add: sample_formdata_def trim_def lit_def isWhiteSpace_def)
  have t: "timers sample_page = []" "nextNodeId sample_page = 2"
    "submitLabel sample_page = lit ''Send Message''"
    by (simp_all add: sample_page_def)
  from validateContactForm_order
         [of sample_formdata sample_page "lit ''Please enter your name.''"] f1
  have a: "handleContactForm sample_page
             = showMessage (lit ''Please enter your name.'') (lit ''error'') sample_page \<and>
           timers (handleContactForm sample_page)
             = timers sample_page @ [(5000, RemoveNode (nextNodeId sample_page))]"
    by blast
  from validateContactForm_order
         [of sample_formdata "sample_page\<lparr>formValues := sample_formdata\<rparr>"] f2
  have b: "timers (handleContactForm (sample_page\<lparr>formValues := sample_formdata\<rparr>))
             = timers (sample_page\<lparr>formValues := sample_formdata\<rparr>) @
               [(2000, SubmitResolve (formValues (sample_page\<lparr>formValues := sample_formdata\<rparr>))
                         (submitLabel (sample_page\<lparr>formValues := sample_formdata\<rparr>)))]"
    by blast
  from a [THEN conjunct2] t
  have a2: "timers (handleContactForm sample_page) = [(5000, RemoveNode 2)]"
    by simp
  from b t
  have b2: "timers (handleContactForm (sample_page\<lparr>formValues := sample_formdata\<rparr>))
              = [(2000, SubmitResolve sample_formdata (lit ''Send Message''))]"
    by simp
  from f1 f2 a [THEN conjunct1] a2 b2 show ?thesis by blast
qed

text \<open>
  C4 (as amended).  The fade-in scan handler that runs on scroll is wrapped in a
  throttle with a 50 ms window: a call while the flag is clear sets the flag and
  schedules its reset after 50 milliseconds, a further call before that timer runs
  is dropped, and the timer clears the flag.
\<close>

theorem animateOnScroll_window:
  "\<not> inThrottle s FadeInCell \<Longrightarrow>
     timers (animateOnScroll v s) = timers s @ [(50, ClearThrottle FadeInCell)] \<and>
     inThrottle (animateOnScroll v s) FadeInCell \<and>
     animateOnScroll v' (animateOnScroll v s) = animateOnScroll v s \<and>
     \<not> inThrottle (fire (ClearThrottle FadeInCell) (animateOnScroll v s)) FadeInCell"
  by (simp add: animateOnScroll_def throttle_def Let_def animateOnScroll_body_def
        foldl_reveal_theme)

theorem animateOnScroll_window_witness:
  "\<not> inThrottle sample_page FadeInCell \<and>
   timers (animateOnScroll sample_viewport sample_page) = [(50, ClearThrottle FadeInCell)]"
proof -
  have h: "\<not> inThrottle sample_page FadeInCell"
    by (simp add: sample_page_def)
  have t: "timers sample_page = []"
    by (simp add: sample_page_def)
  from animateOnScroll_window [OF h, of sample_viewport] h t show ?thesis by simp
qed

text \<open>
  C4 as stated fails: on the sample page the reset that a call of the fade-in scan
  handler schedules is not due after 10 milliseconds.
\<close>

theorem animateOnScroll_window_counterexample:
  "timers (animateOnScroll sample_viewport sample_page)
     \<noteq> timers sample_page @ [(10, ClearThrottle FadeInCell)]"
  by (simp add: animateOnScroll_def throttle_def Let_def animateOnScroll_body_def
        foldl_reveal_theme sample_page_def)

text \<open>
  C5 (the code at the failing input).  Called on the sample page, \<open>showMessage\<close>
  does not put the new message node in front of the form as a sibling: the nodes
  before the form stay as they were and the new node becomes the first child of the
  form.  Called on the page with two message nodes, it removes only the first of
  them, so the second is still in the document next to the new node.
\<close>

theorem showMessage_inside_form:
  "nodesBefore (showMessage (lit ''Hello'') (lit ''info'') sample_page)
     = nodesBefore sample_page \<and>
   formKids (showMessage (lit ''Hello'') (lit ''info'') sample_page)
     = \<lparr>nodeId = 2, classList = messageClasses (lit ''info''), textContent = lit ''Hello''\<rparr>
       # formKids sample_page \<and>
   timers (showMessage (lit ''Hello'') (lit ''info'') sample_page) = [(5000, RemoveNode 2)] \<and>
   filter isFormMessage
     (documentNodes (showMessage (lit ''Hello'') (lit ''info'') two_message_page))
     = [\<lparr>nodeId = 4, classList = messageClasses (lit ''info''), textContent = lit ''Hello''\<rparr>,
        \<lparr>nodeId = 3, classList = [lit ''form-message''], textContent = lit ''two''\<rparr>]"
proof -
  have grid: "\<not> isFormMessage \<lparr>nodeId = 1, classList = [lit ''grid''], textContent = lit ''''\<rparr>"
    and title: "\<not> isFormMessage \<lparr>nodeId = 0, classList = [lit ''section-title''],
                                   textContent = lit ''Contact''\<rparr>"
    by (simp_all add: isFormMessage_def lit_def)
  have one: "isFormMessage \<lparr>nodeId = 2, classList = [lit ''form-message''], textContent = lit ''one''\<rparr>"
    and two: "isFormMessage \<lparr>nodeId = 3, classList = [lit ''form-message''], textContent = lit ''two''\<rparr>"
    by (simp_all add: isFormMessage_def)
  have q0: "querySelector_formMessage sample_page = None"
    using grid title
    by (simp add: querySelector_formMessage_def documentNodes_def sample_page_def)
  have q2: "querySelector_formMessage two_message_page
              = Some \<lparr>nodeId = 2, classList = [lit ''form-message''], textContent = lit ''one''\<rparr>"
    using grid title one
    by (simp add: querySelector_formMessage_def documentNodes_def two_message_page_def
          sample_page_def)
  have a: "nodesBefore (showMessage (lit ''Hello'') (lit ''info'') sample_page)
             = nodesBefore sample_page"
    and b: "formKids (showMessage (lit ''Hello'') (lit ''info'') sample_page)
     = \<lparr>nodeId = 2, classList = messageClasses (lit ''info''), textContent = lit ''Hello''\<rparr>
       # formKids sample_page"
    using q0 by (simp_all add: showMessage_nodes) (simp add: sample_page_def)
  have c: "timers (showMessage (lit ''Hello'') (lit ''info'') sample_page) = [(5000, RemoveNode 2)]"
    by (simp add: showMessage_timers) (simp add: sample_page_def)
  have d: "filter isFormMessage
     (documentNodes (showMessage (lit ''Hello'') (lit ''info'') two_message_page))
     = [\<lparr>nodeId = 4, classList = messageClasses (lit ''info''), textContent = lit ''Hello''\<rparr>,
        \<lparr>nodeId = 3, classList = [lit ''form-message''], textContent = lit ''two''\<rparr>]"
    using q2 grid title two
    by (simp add: documentNodes_def showMessage_nodes isFormMessage_messageDiv)
       (simp add: two_message_page_def sample_page_def)
  from a b c d show ?thesis by blast
qed

text \<open>
  C6 (as amended).  The set of animated elements only grows: no operation, and so
  no sequence of operations, removes an element from it.  A scan that passes the
  throttle and finds an element with the fade-in marker whose top offset is below
  \<^verbatim>\<open>window.innerHeight * 0.8\<close> as the script computes it, the product rounded to
  a double, leaves that element in the set with opacity \<open>1\<close>.  From page load on,
  the opacity of an element is set to \<open>1\<close> at most once, and exactly once for an
  element that such a scan has found, whatever operations ran before it and run
  after it.
\<close>

theorem animatedElements_grow_reveal_once:
  "animatedElements s \<subseteq> animatedElements (exec s op) \<and>
   animatedElements s \<subseteq> animatedElements (run s ops) \<and>
   (\<not> inThrottle s FadeInCell \<and> e \<in> set (fadeInElements v) \<and>
    rectTop v e < js_times_0_8 (innerHeight v) \<and> e \<notin> animatedElements s \<longrightarrow>
      e \<in> animatedElements (animateOnScroll v s) \<and>
      opacity (animateOnScroll v s) e = lit ''1'') \<and>
   (freshly_loaded s \<longrightarrow> count_list (opacityWrites (run s ops)) (e, lit ''1'') \<le> 1) \<and>
   (freshly_loaded s \<and> \<not> inThrottle (run s ops1) FadeInCell \<and>
    e \<in> set (fadeInElements v) \<and> rectTop v e < js_times_0_8 (innerHeight v) \<longrightarrow>
      e \<in> animatedElements (run s (ops1 @ AnimateOnScroll v # ops2)) \<and>
      count_list (opacityWrites (run s (ops1 @ AnimateOnScroll v # ops2))) (e, lit ''1'') = 1)"
proof (intro conjI impI)
  show "animatedElements s \<subseteq> animatedElements (exec s op)"
    by (rule exec_mono)
  show "animatedElements s \<subseteq> animatedElements (run s ops)"
    by (rule run_mono)
next
  assume a: "\<not> inThrottle s FadeInCell \<and> e \<in> set (fadeInElements v) \<and>
    rectTop v e < js_times_0_8 (innerHeight v) \<and> e \<notin> animatedElements s"
  then have "e \<in> animatedElements (animateOnScroll v s) \<and>
      opacity (animateOnScroll v s) e = lit ''1''"
    by (intro animateOnScroll_sets) simp_all
  then show "e \<in> animatedElements (animateOnScroll v s)"
    and "opacity (animateOnScroll v s) e = lit ''1''"
    by simp_all
next
  assume "freshly_loaded s"
  then have "reveal_inv (run s ops)"
    by (simp add: freshly_loaded_inv run_inv)
  then show "count_list (opacityWrites (run s ops)) (e, lit ''1'') \<le> 1"
    by (simp add: reveal_inv_count)
next
  assume a: "freshly_loaded s \<and> \<not> inThrottle (run s ops1) FadeInCell \<and>
    e \<in> set (fadeInElements v) \<and> rectTop v e < js_times_0_8 (innerHeight v)"
  let ?t = "run s (ops1 @ AnimateOnScroll v # ops2)"
  have split: "?t = run (animateOnScroll v (run s ops1)) ops2"
    by (simp add: run_append)
  from a have "e \<in> animatedElements (animateOnScroll_body v (run s ops1))"
    by (simp add: animateOnScroll_body_def foldl_reveal_adds)
  with a have "e \<in> animatedElements (animateOnScroll v (run s ops1))"
    by (simp add: animateOnScroll_def throttle_frame)
  with run_mono [of "animateOnScroll v (run s ops1)" ops2] split
  show mem: "e \<in> animatedElements ?t" by auto
  from a have inv: "reveal_inv ?t"
    by (simp add: freshly_loaded_inv run_inv)
  from inv mem show "count_list (opacityWrites ?t) (e, lit ''1'') = 1"
    by (simp add: reveal_inv_count)
qed

theorem animatedElements_grow_reveal_once_witness:
  "freshly_loaded sample_page \<and> \<not> inThrottle (run sample_page []) FadeInCell \<and>
   1 \<in> set (fadeInElements sample_viewport) \<and>
   rectTop sample_viewport 1 < js_times_0_8 (innerHeight sample_viewport) \<and>
   1 \<notin> animatedElements sample_page \<and>
   opacity (animateOnScroll sample_viewport sample_page) 1 = lit ''1'' \<and>
   1 \<in> animatedElements
         (run sample_page
            ([] @ AnimateOnScroll sample_viewport #
               [FireTimer 0, HandleLoad (Some 3), AnimateOnScroll sample_viewport])) \<and>
   count_list
     (opacityWrites
        (run sample_page
           ([] @ AnimateOnScroll sample_viewport #
              [FireTimer 0, HandleLoad (Some 3), AnimateOnScroll sample_viewport])))
     (1, lit ''1'') = 1"
proof -
  have h: "freshly_loaded sample_page \<and> \<not> inThrottle (run sample_page []) FadeInCell \<and>
      1 \<in> set (fadeInElements sample_viewport) \<and>
      rectTop sample_viewport 1 < js_times_0_8 (innerHeight sample_viewport)"
    by (simp add: freshly_loaded_def sample_page_def sample_viewport_def js_times_0_8_600)
  have h': "\<not> inThrottle sample_page FadeInCell \<and> 1 \<notin> animatedElements sample_page"
    by (simp add: sample_page_def)
  from animatedElements_grow_reveal_once
         [of sample_page _ _ 1 sample_viewport "[]"
             "[FireTimer 0, HandleLoad (Some 3), AnimateOnScroll sample_viewport]"] h h'
  show ?thesis by blast
qed

text \<open>
  C6 as stated fails: in the viewport 344 pixels high the element's top, the
  double written \<^verbatim>\<open>275.2\<close>, is above 80% of the viewport height, and the script's
  product \<^verbatim>\<open>344 * 0.8\<close> is that same double; the scan, though it passes the
  throttle, neither adds the element to the set nor sets its opacity.
\<close>

theorem animatedElements_grow_reveal_once_counterexample:
  "\<not> inThrottle sample_page FadeInCell \<and>
   1 \<in> set (fadeInElements boundary_viewport) \<and>
   rectTop boundary_viewport 1 < real_of_int (innerHeight boundary_viewport) * 0.8 \<and>
   1 \<notin> animatedElements (animateOnScroll boundary_viewport sample_page) \<and>
   opacity (animateOnScroll boundary_viewport sample_page) 1 \<noteq> lit ''1'' \<and>
   opacityWrites (animateOnScroll boundary_viewport sample_page) = []"
proof -
  have body: "animateOnScroll_body boundary_viewport sample_page = sample_page"
    by (simp add: animateOnScroll_body_def boundary_viewport_def revealElement_def
          js_times_0_8_344 Let_def)
  have "rectTop boundary_viewport 1 < real_of_int (innerHeight boundary_viewport) * 0.8"
    by (simp add: boundary_viewport_def)
  moreover have "\<not> inThrottle sample_page FadeInCell"
    by (simp add: sample_page_def)
  moreover have "1 \<in> set (fadeInElements boundary_viewport)"
    by (simp add: boundary_viewport_def)
  moreover have "animatedElements (animateOnScroll boundary_viewport sample_page) = {}"
    and "opacity (animateOnScroll boundary_viewport sample_page) 1 = lit ''0''"
    and "opacityWrites (animateOnScroll boundary_viewport sample_page) = []"
    by (simp_all add: animateOnScroll_def throttle_def Let_def body)
       (simp_all add: sample_page_def)
  moreover have "lit ''0'' \<noteq> lit ''1''"
    by (simp add: lit_def)
  ultimately show ?thesis by simp
qed

text \<open>
  C7 (as amended).  For every starting state, calling the menu toggle twice in a row
  returns the menu flag and the set of classes of the button icon (with
  \<open>fa-bars\<close> and \<open>fa-times\<close>) to their original state, and leaves the body overflow
  style at the value that belongs to the flag, \<open>hidden\<close> for an open menu and the
  empty string for a closed one; the overflow style is therefore back at its
  original value whenever that original value was the one belonging to the flag.
\<close>

theorem toggleMobileMenu_twice:
  "isMenuOpen (toggleMobileMenu (toggleMobileMenu s)) = isMenuOpen s \<and>
   set (iconClasses (toggleMobileMenu (toggleMobileMenu s))) = set (iconClasses s) \<and>
   bodyOverflow (toggleMobileMenu (toggleMobileMenu s)) =
     (if isMenuOpen s then lit ''hidden'' else lit '''') \<and>
   (bodyOverflow s = (if isMenuOpen s then lit ''hidden'' else lit '''') \<longrightarrow>
      bodyOverflow (toggleMobileMenu (toggleMobileMenu s)) = bodyOverflow s)"
  by (simp add: toggleMobileMenu_fields set_classList_toggle4)

theorem toggleMobileMenu_twice_witness:
  "bodyOverflow sample_page = (if isMenuOpen sample_page then lit ''hidden'' else lit '''') \<and>
   bodyOverflow (toggleMobileMenu (toggleMobileMenu sample_page)) = bodyOverflow sample_page \<and>
   set (iconClasses (toggleMobileMenu (toggleMobileMenu sample_page)))
     = set (iconClasses sample_page)"
proof -
  have h: "bodyOverflow sample_page = (if isMenuOpen sample_page then lit ''hidden'' else lit '''')"
    by (simp add: sample_page_def)
  from toggleMobileMenu_twice [of sample_page] h show ?thesis by simp
qed

text \<open>
  C7 as stated fails: starting with the menu closed and the body overflow style
  \<open>scroll\<close>, two toggles leave the style at the empty string.
\<close>

theorem toggleMobileMenu_twice_counterexample:
  "bodyOverflow (toggleMobileMenu (toggleMobileMenu (sample_page\<lparr>bodyOverflow := lit ''scroll''\<rparr>)))
     \<noteq> bodyOverflow (sample_page\<lparr>bodyOverflow := lit ''scroll''\<rparr>)"
  by (simp add: toggleMobileMenu_fields sample_page_def lit_def)

text \<open>
  C8.  \<open>isValidEmail\<close> returns true exactly for the strings that match
  \<^verbatim>\<open>^[^\s@]+@[^\s@]+\.[^\s@]+$\<close>.  In particular \<open>a@b.co\<close> passes, a string
  without \<open>@\<close> fails, and a string whose part after an \<open>@\<close> has no dot fails.
\<close>

theorem isValidEmail_exact:
  "(isValidEmail s \<longleftrightarrow> matches_email_pattern s) \<and>
   isValidEmail (lit ''a@b.co'') \<and>
   (0x40 \<notin> set s \<longrightarrow> \<not> isValidEmail s) \<and>
   (0x2E \<notin> set domainPart \<longrightarrow> \<not> isValidEmail (localPart @ [0x40] @ domainPart))"
  using isValidEmail_iff_pattern isValidEmail_sample isValidEmail_needs_at
    isValidEmail_needs_domain_dot
  by blast

theorem isValidEmail_exact_witness:
  "0x40 \<notin> set (lit ''ab.co'') \<and> \<not> isValidEmail (lit ''ab.co'') \<and>
   0x2E \<notin> set (lit ''bco'') \<and> \<not> isValidEmail (lit ''a'' @ [0x40] @ lit ''bco'') \<and>
   matches_email_pattern (lit ''a@b.co'')"
proof -
  have h1: "0x40 \<notin> set (lit ''ab.co'')" and h2: "0x2E \<notin> set (lit ''bco'')"
    by (simp_all add: lit_def)
  from isValidEmail_exact [of "lit ''ab.co''" "lit ''bco''" "lit ''a''"] h1 h2
  have "\<not> isValidEmail (lit ''ab.co'')" and "\<not> isValidEmail (lit ''a'' @ [0x40] @ lit ''bco'')"
    by blast+
  moreover from isValidEmail_exact [of "lit ''a@b.co''"]
  have "matches_email_pattern (lit ''a@b.co'')"
    by blast
  ultimately show ?thesis using h1 h2 by blast
qed

text \<open>
  C9.  Calling the menu-close operation while \<open>isMenuOpen\<close> is false changes
  nothing: the resulting page, with the classes of the menu panel and of the button
  icon, the body overflow style and the UI state, is the page it was called on.
\<close>

theorem closeMobileMenu_closed_noop:
  "\<not> isMenuOpen s \<Longrightarrow> closeMobileMenu s = s"
  by (simp add: closeMobileMenu_def)

theorem closeMobileMenu_closed_noop_witness:
  "\<not> isMenuOpen sample_page \<and> closeMobileMenu sample_page = sample_page"
proof -
  have h: "\<not> isMenuOpen sample_page" by (simp add: sample_page_def)
  from closeMobileMenu_closed_noop [OF h] h show ?thesis by simp
qed

text \<open>
  C10 (as amended).  After each theme operation (initialisation, \<open>setTheme\<close>,
  toggle) that finds storage available, the value stored under the key \<open>theme\<close> is
  the class name of the root element; and once the two agree they agree after every
  further sequence of operations whose storage writes succeed.  When storage is
  full or disabled, \<open>setTheme\<close> ends with the exception after it has assigned the
  class name, and the stored value is left as it was.
\<close>

theorem theme_storage_agrees:
  "storage (snd (theme_init Available s)) (lit ''theme'')
     = Some (rootClass (snd (theme_init Available s))) \<and>
   storage (snd (setTheme Available themeName s)) (lit ''theme'')
     = Some (rootClass (snd (setTheme Available themeName s))) \<and>
   storage (snd (theme_toggle Available s)) (lit ''theme'')
     = Some (rootClass (snd (theme_toggle Available s))) \<and>
   (storage s (lit ''theme'') = Some (rootClass s) \<and> (\<forall>op \<in> set ops. storage_writable op) \<longrightarrow>
      storage (run s ops) (lit ''theme'') = Some (rootClass (run s ops))) \<and>
   (mode \<noteq> Available \<longrightarrow>
      fst (setTheme mode themeName s) = Thrown \<and>
      rootClass (snd (setTheme mode themeName s)) = themeName \<and>
      storage (snd (setTheme mode themeName s)) = storage s)"
  by (simp add: theme_init_def theme_toggle_def setTheme_def Let_def run_agree)

theorem theme_storage_agrees_witness:
  "storage (snd (theme_init Available sample_page)) (lit ''theme'')
     = Some (rootClass (snd (theme_init Available sample_page))) \<and>
   storage_writable ToggleMobileMenu \<and> storage_writable (ThemeToggle Available) \<and>
   storage (run (snd (theme_init Available sample_page))
              [ToggleMobileMenu, ThemeToggle Available]) (lit ''theme'')
     = Some (rootClass (run (snd (theme_init Available sample_page))
                          [ToggleMobileMenu, ThemeToggle Available])) \<and>
   QuotaExceeded \<noteq> Available \<and>
   fst (setTheme QuotaExceeded (lit ''dark'') sample_page) = Thrown \<and>
   rootClass (snd (setTheme QuotaExceeded (lit ''dark'') sample_page)) = lit ''dark'' \<and>
   storage (snd (setTheme QuotaExceeded (lit ''dark'') sample_page)) = storage sample_page"
proof -
  have h: "storage (snd (theme_init Available sample_page)) (lit ''theme'')
             = Some (rootClass (snd (theme_init Available sample_page)))"
    by (simp add: theme_init_def setTheme_def Let_def)
  have w: "\<forall>op \<in> set [ToggleMobileMenu, ThemeToggle Available]. storage_writable op"
    by simp
  have m: "QuotaExceeded \<noteq> Available"
    by simp
  from theme_storage_agrees
         [of "snd (theme_init Available sample_page)" _
             "[ToggleMobileMenu, ThemeToggle Available]"] h w
  have r: "storage (run (snd (theme_init Available sample_page))
              [ToggleMobileMenu, ThemeToggle Available]) (lit ''theme'')
     = Some (rootClass (run (snd (theme_init Available sample_page))
                          [ToggleMobileMenu, ThemeToggle Available]))"
    by blast
  from theme_storage_agrees [of sample_page "lit ''dark''" _ QuotaExceeded] m
  have f: "fst (setTheme QuotaExceeded (lit ''dark'') sample_page) = Thrown \<and>
      rootClass (snd (setTheme QuotaExceeded (lit ''dark'') sample_page)) = lit ''dark'' \<and>
      storage (snd (setTheme QuotaExceeded (lit ''dark'') sample_page)) = storage sample_page"
    by blast
  from h m r f show ?thesis by simp
qed

text \<open>
  C10 as stated fails: on the sample page after initialisation, class and stored
  value are both \<open>light\<close>; a toggle that finds storage full leaves the class at
  \<open>dark\<close> and the stored value at \<open>light\<close>.
\<close>

theorem theme_storage_agrees_counterexample:
  "rootClass (snd (theme_toggle QuotaExceeded (snd (theme_init Available sample_page))))
     = lit ''dark'' \<and>
   storage (snd (theme_toggle QuotaExceeded (snd (theme_init Available sample_page))))
     (lit ''theme'') = Some (lit ''light'') \<and>
   storage (snd (theme_toggle QuotaExceeded (snd (theme_init Available sample_page))))
     (lit ''theme'')
     \<noteq> Some (rootClass
               (snd (theme_toggle QuotaExceeded (snd (theme_init Available sample_page)))))"
  by (simp add: theme_toggle_def theme_init_def setTheme_def Let_def sample_page_def)
     (simp add: lit_def)

end
